theory Spec2Isabelle
  imports Complex_Main "HOL-Library.Sublist" "HOL-Library.AList"
begin

section \<open>Values, entities and metrics\<close>

text \<open>
  The values that travel through \<^verbatim>\<open>timegraph/models.py\<close>: what a caller hands to
  \<^verbatim>\<open>set_polling\<close>, what the shared cache hands back and what \<^verbatim>\<open>to_python\<close> returns.
  Python floats are modelled as reals (no NaN, no infinity), text as \<open>string\<close>.
\<close>

datatype pyval = PNone | PBool bool | PInt int | PFloat real | PStr string

datatype pyerr =
    TypeError | ValueError | KeyError | IndexError
  | RrdError string
  | XportFailed string

text \<open>A primary key is a number for most models and a text for some (a MAC address).\<close>

datatype pkey = PkInt int | PkStr string

record entity =
  cls :: string
  epk :: pkey

text \<open>
  The fields of \<^verbatim>\<open>Metric\<close> that the code below reads, the four settings that
  \<^verbatim>\<open>__init__\<close> copies into the instance, and its two mutable members:
  \<open>lcache\<close> is \<^verbatim>\<open>self._cache\<close> and \<open>queue\<close> is \<^verbatim>\<open>self.queue\<close>.
\<close>

record metric =
  mpk :: int
  parameter :: string
  mtype :: string
  rrd_enabled :: bool
  cache_timeout :: int
  rrd_root :: string
  cache_prefix :: string
  heartbeat :: int
  queue_size :: int
  lcache :: "pkey \<rightharpoonup> pyval"
  queue :: "(entity \<times> pyval) list"

text \<open>
  Conversions between text and numbers that belong to the Python runtime and not to
  this repository are parameters of the model.
\<close>

record pyrt =
  float_of_str :: "string \<Rightarrow> real option"
  int_of_str :: "string \<Rightarrow> int option"
  str_of_float :: "real \<Rightarrow> string"

section \<open>Text helpers\<close>

definition digit_char :: "nat \<Rightarrow> char" where
  "digit_char n = ''0123456789'' ! n"

fun str_nat :: "nat \<Rightarrow> string" where
  "str_nat n = (if n < 10 then [digit_char n] else str_nat (n div 10) @ [digit_char (n mod 10)])"

declare str_nat.simps [simp del]

definition str_int :: "int \<Rightarrow> string" where
  "str_int i = (if i < 0 then CHR ''-'' # str_nat (nat (- i)) else str_nat (nat i))"

definition lower_char :: "char \<Rightarrow> char" where
  "lower_char c =
     (case map_of (zip ''ABCDEFGHIJKLMNOPQRSTUVWXYZ'' ''abcdefghijklmnopqrstuvwxyz'') c of
        Some d \<Rightarrow> d
      | None \<Rightarrow> c)"

text \<open>\<^verbatim>\<open>objtype(obj)\<close>: the lower-cased class name.\<close>

definition objtype :: "entity \<Rightarrow> string" where
  "objtype obj = map lower_char (cls obj)"

text \<open>\<^verbatim>\<open>str(obj.pk)\<close> and \<^verbatim>\<open>.replace(':', '')\<close>.\<close>

fun pk_str :: "pkey \<Rightarrow> string" where
  "pk_str (PkInt i) = str_int i"
| "pk_str (PkStr s) = s"

definition strip_colons :: "string \<Rightarrow> string" where
  "strip_colons s = filter (\<lambda>c. c \<noteq> CHR '':'') s"

text \<open>\<^verbatim>\<open>posixpath.join\<close> and \<^verbatim>\<open>posixpath.dirname\<close>.\<close>

definition join2 :: "string \<Rightarrow> string \<Rightarrow> string" where
  "join2 path b =
     (if take 1 b = ''/'' then b
      else if path = [] \<or> last path = CHR ''/'' then path @ b
      else path @ ''/'' @ b)"

definition path_join :: "string \<Rightarrow> string list \<Rightarrow> string" where
  "path_join a p = foldl join2 a p"

definition dirname :: "string \<Rightarrow> string" where
  "dirname p =
     (let head = rev (dropWhile (\<lambda>c. c \<noteq> CHR ''/'') (rev p))
      in if head \<noteq> [] \<and> head \<noteq> replicate (length head) CHR ''/''
         then rev (dropWhile (\<lambda>c. c = CHR ''/'') (rev head))
         else head)"

text \<open>
  \<^verbatim>\<open>template % arg\<close> for a template whose only conversion is one \<^verbatim>\<open>%s\<close> and a
  text argument: the first \<^verbatim>\<open>%s\<close> is replaced.
\<close>

fun fmt_s :: "string \<Rightarrow> string \<Rightarrow> string" where
  "fmt_s (c # d # cs) a =
     (if c = CHR ''%'' \<and> d = CHR ''s'' then a @ cs else c # fmt_s (d # cs) a)"
| "fmt_s cs a = cs"

section \<open>Archive paths and cache keys\<close>

text \<open>\<^verbatim>\<open>Metric._rrd_path\<close>.\<close>

definition rrd_path :: "metric \<Rightarrow> entity \<Rightarrow> string" where
  "rrd_path m obj =
     (let obj_type = objtype obj;
          obj_pk = strip_colons (pk_str (epk obj))
      in path_join (rrd_root m) [obj_type, obj_pk, str_int (mpk m) @ ''.rrd''])"

text \<open>\<^verbatim>\<open>Metric._pre_key_for\<close>: only the class of the first object is read.\<close>

definition pre_key_for :: "metric \<Rightarrow> entity \<Rightarrow> string" where
  "pre_key_for m first_obj =
     cache_prefix m @ ''/'' @ objtype first_obj @ ''/%s/'' @ str_int (mpk m)"

text \<open>
  The shared-cache key of one object, \<^verbatim>\<open>pre_key % str(pk).replace(':', '')\<close>, as both
  \<^verbatim>\<open>get_polling_many\<close> and \<^verbatim>\<open>set_polling_many\<close> build it.
\<close>

definition cache_key :: "string \<Rightarrow> pkey \<Rightarrow> string" where
  "cache_key pre_key k = fmt_s pre_key (strip_colons (pk_str k))"

section \<open>Decoding raw values\<close>

text \<open>\<^verbatim>\<open>float(value)\<close>, \<^verbatim>\<open>int(value)\<close>, \<^verbatim>\<open>unicode(value)\<close> and truth of a value.\<close>

fun py_float :: "pyrt \<Rightarrow> pyval \<Rightarrow> pyerr + real" where
  "py_float rt PNone = Inl TypeError"
| "py_float rt (PBool b) = Inr (if b then 1 else 0)"
| "py_float rt (PInt i) = Inr (real_of_int i)"
| "py_float rt (PFloat x) = Inr x"
| "py_float rt (PStr s) =
     (case float_of_str rt s of None \<Rightarrow> Inl ValueError | Some x \<Rightarrow> Inr x)"

fun py_int :: "pyrt \<Rightarrow> pyval \<Rightarrow> pyerr + int" where
  "py_int rt PNone = Inl TypeError"
| "py_int rt (PBool b) = Inr (if b then 1 else 0)"
| "py_int rt (PInt i) = Inr i"
| "py_int rt (PFloat x) = Inr (if 0 \<le> x then \<lfloor>x\<rfloor> else \<lceil>x\<rceil>)"
| "py_int rt (PStr s) =
     (case int_of_str rt s of None \<Rightarrow> Inl ValueError | Some i \<Rightarrow> Inr i)"

fun py_unicode :: "pyrt \<Rightarrow> pyval \<Rightarrow> string" where
  "py_unicode rt PNone = ''None''"
| "py_unicode rt (PBool b) = (if b then ''True'' else ''False'')"
| "py_unicode rt (PInt i) = str_int i"
| "py_unicode rt (PFloat x) = str_of_float rt x"
| "py_unicode rt (PStr s) = s"

fun truthy :: "pyval \<Rightarrow> bool" where
  "truthy PNone = False"
| "truthy (PBool b) = b"
| "truthy (PInt i) = (i \<noteq> 0)"
| "truthy (PFloat x) = (x \<noteq> 0)"
| "truthy (PStr s) = (s \<noteq> [])"

text \<open>
  \<^verbatim>\<open>Metric.to_python(value, force_metric_type)\<close>. The two \<^verbatim>\<open>except\<close> clauses catch
  \<^verbatim>\<open>ValueError\<close> and \<^verbatim>\<open>TypeError\<close>, which are all that the conversions raise here.
\<close>

definition to_python :: "pyrt \<Rightarrow> metric \<Rightarrow> pyval \<Rightarrow> bool \<Rightarrow> pyval" where
  "to_python rt m v force_metric_type =
     (if mtype m = ''float'' then
        (case py_float rt v of
           Inr x \<Rightarrow> PFloat x
         | Inl e \<Rightarrow> if force_metric_type then PFloat 0 else PNone)
      else if mtype m = ''int'' then
        (case py_int rt v of
           Inr i \<Rightarrow> PInt i
         | Inl e \<Rightarrow> if force_metric_type then PInt 0 else PNone)
      else if mtype m = ''bool'' then
        (if v = PStr ''1'' \<or> v = PStr ''True'' then PBool True
         else if \<not> force_metric_type \<and> v = PNone then PNone
         else PBool False)
      else PStr (if truthy v \<and> py_unicode rt v \<noteq> [] then py_unicode rt v else []))"

section \<open>The shared cache and the series store\<close>

text \<open>
  One archive of the series store: the definition it was created with and the samples
  appended since (the timestamp of each sample is the time of the call and is not kept).
\<close>

record archive =
  defn :: "string list"
  samples :: "pyval list"

text \<open>
  Everything outside the metric instance that the code reads or writes.
  \<^item> \<open>shared\<close> is the content of the shared cache; \<open>wire\<close> is what the cache
    transport stores for a value written with \<^verbatim>\<open>raw=True\<close>; \<open>get_trips\<close> and
    \<open>set_trips\<close> list the \<^verbatim>\<open>get_many\<close> and \<^verbatim>\<open>set_many\<close> round trips made so far.
  \<^item> \<open>archives\<close> are the files of the series store and \<open>dirs\<close> the directories that
    exist; \<open>faults\<close> gives the message with which an update of an existing archive
    is refused, for the archives that are faulty.
  \<^item> \<open>logged\<close> is what went to \<^verbatim>\<open>LOGGER.error\<close>.
\<close>

record world =
  shared :: "string \<rightharpoonup> pyval"
  wire :: "pyval \<Rightarrow> pyval"
  get_trips :: "string list list"
  set_trips :: "((string \<times> pyval) list \<times> int) list"
  archives :: "string \<rightharpoonup> archive"
  dirs :: "string set"
  faults :: "string \<rightharpoonup> string"
  logged :: "(string \<times> string \<times> string) list"

text \<open>\<^verbatim>\<open>cache.get_many(keys, raw=True)\<close>: the hits among \<open>keys\<close>, in one round trip.\<close>

definition cache_get_many :: "world \<Rightarrow> string list \<Rightarrow> (string \<rightharpoonup> pyval) \<times> world" where
  "cache_get_many w keys =
     (shared w |` set keys, w\<lparr>get_trips := get_trips w @ [keys]\<rparr>)"

text \<open>\<^verbatim>\<open>cache.set_many(cache_dict, timeout=timeout, raw=True)\<close>, one round trip.\<close>

definition cache_set_many :: "world \<Rightarrow> (string \<times> pyval) list \<Rightarrow> int \<Rightarrow> world" where
  "cache_set_many w cache_dict timeout =
     w\<lparr>shared := shared w ++ map_of (map (\<lambda>(k, v). (k, wire w v)) cache_dict),
       set_trips := set_trips w @ [(cache_dict, timeout)]\<rparr>"

text \<open>The message of the series store for a path that is not there.\<close>

definition no_such_file :: "string \<Rightarrow> string \<Rightarrow> string" where
  "no_such_file doing path = doing @ path @ '': No such file or directory''"

text \<open>
  \<^verbatim>\<open>rrdtool.update(filepath, "N:<value>")\<close>: a missing file is refused with the
  system's message for it, a faulty archive with its own message, and otherwise one
  sample is appended. \<open>Inl\<close> carries the message of \<^verbatim>\<open>rrdtool.error\<close>.
\<close>

definition rrd_update :: "world \<Rightarrow> string \<Rightarrow> pyval \<Rightarrow> string + world" where
  "rrd_update w filepath v =
     (case archives w filepath of
        None \<Rightarrow> Inl (no_such_file ''opening '' filepath)
      | Some a \<Rightarrow>
          (case faults w filepath of
             Some msg \<Rightarrow> Inl msg
           | None \<Rightarrow>
               Inr (w\<lparr>archives := (archives w)(filepath \<mapsto> a\<lparr>samples := samples a @ [v]\<rparr>)\<rparr>)))"

text \<open>
  \<^verbatim>\<open>rrdtool.create(filepath, ds, rra...)\<close>: needs the directory, and leaves an archive
  without samples.
\<close>

definition rrd_create :: "world \<Rightarrow> string \<Rightarrow> string list \<Rightarrow> string + world" where
  "rrd_create w filepath args =
     (if dirname filepath \<in> dirs w
      then Inr (w\<lparr>archives := (archives w)(filepath \<mapsto> \<lparr>defn = args, samples = []\<rparr>)\<rparr>)
      else Inl (no_such_file ''creating '' filepath))"

text \<open>\<^verbatim>\<open>os.path.exists(path)\<close>.\<close>

definition path_exists :: "world \<Rightarrow> string \<Rightarrow> bool" where
  "path_exists w p = (archives w p \<noteq> None \<or> p \<in> dirs w)"

text \<open>\<^verbatim>\<open>os.makedirs(dirpath)\<close>; only the leaf directory is tracked.\<close>

definition makedirs :: "world \<Rightarrow> string \<Rightarrow> world" where
  "makedirs w dirpath = w\<lparr>dirs := insert dirpath (dirs w)\<rparr>"

section \<open>Writing the latest value\<close>

text \<open>\<^verbatim>\<open>value not in (None, '')\<close>.\<close>

definition archivable :: "pyval \<Rightarrow> bool" where
  "archivable v = (v \<noteq> PNone \<and> v \<noteq> PStr [])"

definition create_args :: "metric \<Rightarrow> string list" where
  "create_args m =
     [''DS:'' @ str_int (mpk m) @ '':GAUGE:'' @ str_int (heartbeat m) @ '':U:U'',
      ''RRA:AVERAGE:0.5:1:600'',
      ''RRA:AVERAGE:0.5:6:600'',
      ''RRA:AVERAGE:0.5:24:600'',
      ''RRA:AVERAGE:0.5:288:600'']"

text \<open>
  The body of the loop of \<^verbatim>\<open>Metric.set_polling_many\<close> for one pair. The state of the
  loop is \<^verbatim>\<open>cache_dict\<close> (a dict, kept as an association list with one entry per
  key) and the world. The first \<^verbatim>\<open>rrdtool.update\<close> is inside \<^verbatim>\<open>try\<close>; the calls of
  the recovery path are not, so their failure leaves the method.
\<close>

definition set_polling_one ::
  "metric \<Rightarrow> string \<Rightarrow> string \<Rightarrow> string \<Rightarrow> entity \<times> pyval \<Rightarrow>
   (string \<times> pyval) list \<times> world \<Rightarrow> pyerr + ((string \<times> pyval) list \<times> world)" where
  "set_polling_one m pre_key pre_path filename ov st =
     (let obj = fst ov; value = snd ov;
          cache_dict = fst st; w = snd st;
          obj_pk = strip_colons (pk_str (epk obj));
          key = fmt_s pre_key obj_pk;
          cache_dict' = AList.update key value cache_dict
      in if rrd_enabled m \<and> archivable value then
           (let filepath = path_join pre_path [obj_pk, filename]
            in case rrd_update w filepath value of
                 Inr w' \<Rightarrow> Inr (cache_dict', w')
               | Inl msg \<Rightarrow>
                   if \<not> sublist ''No such file'' msg
                   then Inr (cache_dict',
                             w\<lparr>logged := logged w @ [(parameter m, obj_pk, msg)]\<rparr>)
                   else
                     (let dirpath = dirname filepath;
                          w1 = (if \<not> path_exists w dirpath then makedirs w dirpath else w)
                      in case rrd_create w1 filepath (create_args m) of
                           Inl e \<Rightarrow> Inl (RrdError e)
                         | Inr w2 \<Rightarrow>
                             (case rrd_update w2 filepath value of
                                Inl e \<Rightarrow> Inl (RrdError e)
                              | Inr w3 \<Rightarrow> Inr (cache_dict', w3))))
         else Inr (cache_dict', w))"

fun set_polling_loop ::
  "metric \<Rightarrow> string \<Rightarrow> string \<Rightarrow> string \<Rightarrow> (entity \<times> pyval) list \<Rightarrow>
   (string \<times> pyval) list \<times> world \<Rightarrow> pyerr + ((string \<times> pyval) list \<times> world)" where
  "set_polling_loop m pre_key pre_path filename [] st = Inr st"
| "set_polling_loop m pre_key pre_path filename (ov # rest) st =
     (case set_polling_one m pre_key pre_path filename ov st of
        Inl e \<Rightarrow> Inl e
      | Inr st' \<Rightarrow> set_polling_loop m pre_key pre_path filename rest st')"

text \<open>\<^verbatim>\<open>Metric.set_polling_many\<close>.\<close>

definition set_polling_many :: "metric \<Rightarrow> world \<Rightarrow> (entity \<times> pyval) list \<Rightarrow> pyerr + world" where
  "set_polling_many m w objs_and_values =
     (case objs_and_values of
        [] \<Rightarrow> Inr w
      | first # _ \<Rightarrow>
          (let first_obj = fst first;
               pre_key = pre_key_for m first_obj;
               pre_path = path_join (rrd_root m) [objtype first_obj];
               filename = str_int (mpk m) @ ''.rrd''
           in case set_polling_loop m pre_key pre_path filename objs_and_values ([], w) of
                Inl e \<Rightarrow> Inl e
              | Inr (cache_dict, w') \<Rightarrow>
                  (let timeout = (if cache_timeout m \<noteq> 0 then cache_timeout m else 7 * 86400)
                   in Inr (cache_set_many w' cache_dict timeout))))"

text \<open>\<^verbatim>\<open>Metric.set_polling\<close>.\<close>

definition set_polling :: "metric \<Rightarrow> world \<Rightarrow> entity \<Rightarrow> pyval \<Rightarrow> pyerr + world" where
  "set_polling m w obj v = set_polling_many m w [(obj, v)]"

section \<open>The write queue\<close>

text \<open>\<^verbatim>\<open>Metric.dump_queue\<close>: the queue is cleared only when the batch write returns.\<close>

definition dump_queue :: "metric \<Rightarrow> world \<Rightarrow> pyerr + (metric \<times> world)" where
  "dump_queue m w =
     (case set_polling_many m w (queue m) of
        Inl e \<Rightarrow> Inl e
      | Inr w' \<Rightarrow> Inr (m\<lparr>queue := []\<rparr>, w'))"

text \<open>\<^verbatim>\<open>Metric.queue_append\<close>.\<close>

definition queue_append :: "metric \<Rightarrow> world \<Rightarrow> entity \<Rightarrow> pyval \<Rightarrow> pyerr + (metric \<times> world)" where
  "queue_append m w obj v =
     (let m1 = m\<lparr>queue := queue m @ [(obj, v)]\<rparr>
      in if int (length (queue m1)) > queue_size m1 then dump_queue m1 w else Inr (m1, w))"

text \<open>A caller that enqueues the pairs of a list one after the other.\<close>

fun enqueue_all :: "metric \<Rightarrow> world \<Rightarrow> (entity \<times> pyval) list \<Rightarrow> pyerr + (metric \<times> world)" where
  "enqueue_all m w [] = Inr (m, w)"
| "enqueue_all m w ((obj, v) # rest) =
     (case queue_append m w obj v of
        Inl e \<Rightarrow> Inl e
      | Inr (m', w') \<Rightarrow> enqueue_all m' w' rest)"

section \<open>Reading the latest value\<close>

text \<open>\<^verbatim>\<open>Metric.get_cached_polling_list\<close>: a key that is not cached raises.\<close>

fun get_cached_polling_list :: "metric \<Rightarrow> entity list \<Rightarrow> pyerr + pyval list" where
  "get_cached_polling_list m [] = Inr []"
| "get_cached_polling_list m (obj # objs) =
     (case lcache m (epk obj) of
        None \<Rightarrow> Inl KeyError
      | Some v \<Rightarrow>
          (case get_cached_polling_list m objs of
             Inl e \<Rightarrow> Inl e
           | Inr vs \<Rightarrow> Inr (v # vs)))"

text \<open>The loop that fills \<^verbatim>\<open>self._cache\<close> from the result of \<^verbatim>\<open>get_many\<close>.\<close>

fun fill_cache ::
  "pyrt \<Rightarrow> metric \<Rightarrow> bool \<Rightarrow> (string \<rightharpoonup> pyval) \<Rightarrow> (string \<times> pkey) list \<Rightarrow>
   (pkey \<rightharpoonup> pyval) \<Rightarrow> (pkey \<rightharpoonup> pyval)" where
  "fill_cache rt m force metrics [] c = c"
| "fill_cache rt m force metrics ((key, k) # keys) c =
     fill_cache rt m force metrics keys
       (case metrics key of
          Some raw \<Rightarrow> c(k \<mapsto> to_python rt m raw force)
        | None \<Rightarrow> c(k \<mapsto> PNone))"

text \<open>
  \<^verbatim>\<open>Metric.get_polling_many(objs, no_return, force_metric_type)\<close>. The result is
  \<open>None\<close> for \<^verbatim>\<open>no_return=True\<close>.
\<close>

definition get_polling_many ::
  "pyrt \<Rightarrow> metric \<Rightarrow> world \<Rightarrow> entity list \<Rightarrow> bool \<Rightarrow> bool \<Rightarrow>
   pyerr + (pyval list option \<times> metric \<times> world)" where
  "get_polling_many rt m w objs no_return force_metric_type =
     (case objs of
        [] \<Rightarrow> Inr (Some [], m, w)
      | first # _ \<Rightarrow>
          (let pre_key = pre_key_for m first;
               keys = map (\<lambda>obj. (cache_key pre_key (epk obj), epk obj))
                        (filter (\<lambda>obj. lcache m (epk obj) = None) objs);
               mw = (if keys \<noteq> [] then
                       (let gm = cache_get_many w (map fst keys)
                        in (m\<lparr>lcache := fill_cache rt m force_metric_type (fst gm) keys (lcache m)\<rparr>,
                            snd gm))
                     else (m, w))
           in if no_return then Inr (None, fst mw, snd mw)
              else (case get_cached_polling_list (fst mw) objs of
                      Inl e \<Rightarrow> Inl e
                    | Inr vs \<Rightarrow> Inr (Some vs, fst mw, snd mw))))"

text \<open>
  \<^verbatim>\<open>Metric.get_polling(obj, **kwargs)\<close>: the local entry is dropped first, and the
  first element of the batch result is returned (indexing \<^verbatim>\<open>None\<close> raises).
\<close>

definition get_polling ::
  "pyrt \<Rightarrow> metric \<Rightarrow> world \<Rightarrow> entity \<Rightarrow> bool \<Rightarrow> bool \<Rightarrow> pyerr + (pyval \<times> metric \<times> world)" where
  "get_polling rt m w obj no_return force_metric_type =
     (let m1 = m\<lparr>lcache := (lcache m)(epk obj := None)\<rparr>
      in case get_polling_many rt m1 w [obj] no_return force_metric_type of
           Inl e \<Rightarrow> Inl e
         | Inr (None, m', w') \<Rightarrow> Inl TypeError
         | Inr (Some [], m', w') \<Rightarrow> Inl IndexError
         | Inr (Some (v # _), m', w') \<Rightarrow> Inr (v, m', w'))"

section \<open>Export\<close>

subsection \<open>Python indexing\<close>

text \<open>\<^verbatim>\<open>xs[i]\<close> with Python's negative indices; out of range raises.\<close>

definition py_get :: "'a list \<Rightarrow> int \<Rightarrow> pyerr + 'a" where
  "py_get xs i =
     (let j = (if i < 0 then i + int (length xs) else i)
      in if j < 0 \<or> int (length xs) \<le> j then Inl IndexError else Inr (xs ! nat j))"

text \<open>\<^verbatim>\<open>xs[i] = v\<close>, used only behind a successful read of \<^verbatim>\<open>xs[i]\<close>.\<close>

definition py_set :: "'a list \<Rightarrow> int \<Rightarrow> 'a \<Rightarrow> 'a list" where
  "py_set xs i v = xs[nat (if i < 0 then i + int (length xs) else i) := v]"

text \<open>\<^verbatim>\<open>value == 0.0\<close>.\<close>

fun eq_zero :: "pyval \<Rightarrow> bool" where
  "eq_zero (PFloat x) = (x = 0)"
| "eq_zero (PInt i) = (i = 0)"
| "eq_zero (PBool b) = (\<not> b)"
| "eq_zero v = False"

text \<open>\<^verbatim>\<open>sep.join(xs)\<close>.\<close>

fun join_with :: "string \<Rightarrow> string list \<Rightarrow> string" where
  "join_with sep [] = []"
| "join_with sep [x] = x"
| "join_with sep (x # y # xs) = x @ sep @ join_with sep (y # xs)"

text \<open>\<^verbatim>\<open>'%s%i' % (key, obj.pk)\<close>: \<^verbatim>\<open>%i\<close> wants a number.\<close>

fun fmt_si :: "string \<Rightarrow> pkey \<Rightarrow> pyerr + string" where
  "fmt_si key (PkInt i) = Inr (key @ str_int i)"
| "fmt_si key (PkStr s) = Inl TypeError"

subsection \<open>The expression handed to the series store\<close>

text \<open>
  The list comprehension that wraps every variable, flattened
  (\<^verbatim>\<open>models.py\<close> 376-379, \<^verbatim>\<open>views.py\<close> 187-190).
\<close>

definition gap_filled :: "string list \<Rightarrow> string \<Rightarrow> string list" where
  "gap_filled xvars un_value =
     concat (map (\<lambda>var. [var, ''UN'', ''0.0'', var, ''IF'', ''0.0'', ''EQ'', un_value, var, ''IF''])
                 xvars)"

text \<open>
  The whole expression: the wrapped variables, then one operator for every variable
  but the first (\<^verbatim>\<open>xvars += [op for x in variables[1:]]\<close>).
\<close>

definition cdef_rpn :: "string list \<Rightarrow> string \<Rightarrow> string \<Rightarrow> string list" where
  "cdef_rpn variables op un_value = gap_filled variables un_value @ map (\<lambda>x. op) (tl variables)"

definition def_arg :: "metric \<Rightarrow> string \<Rightarrow> string \<Rightarrow> string" where
  "def_arg m xkey path = ''DEF:'' @ xkey @ ''='' @ path @ '':'' @ str_int (mpk m) @ '':AVERAGE''"

definition cdef_arg :: "string \<Rightarrow> string list \<Rightarrow> string" where
  "cdef_arg key xvars = ''CDEF:'' @ key @ ''='' @ join_with '','' xvars"

text \<open>
  The loop over \<^verbatim>\<open>object_list\<close>, the same in both exports: one input series for every
  object whose archive exists. The state is \<^verbatim>\<open>(args, xvars)\<close>.
\<close>

fun export_defs ::
  "world \<Rightarrow> metric \<Rightarrow> string \<Rightarrow> entity list \<Rightarrow> string list \<times> string list \<Rightarrow>
   pyerr + (string list \<times> string list)" where
  "export_defs w m key [] st = Inr st"
| "export_defs w m key (obj # objs) st =
     (let path = rrd_path m obj
      in if path_exists w path then
           (case fmt_si key (epk obj) of
              Inl e \<Rightarrow> Inl e
            | Inr xkey \<Rightarrow>
                export_defs w m key objs (fst st @ [def_arg m xkey path], snd st @ [xkey]))
         else export_defs w m key objs st)"

subsection \<open>The single-metric export\<close>

text \<open>
  What \<^verbatim>\<open>rrdtool.xport\<close> of the Python binding returns is a dict; its entries that are
  lists are kept here. The binding gives under \<^verbatim>\<open>'data'\<close> one tuple per row (\<open>Row\<close>);
  \<open>Cell\<close> is a plain value. A tuple never equals \<^verbatim>\<open>0.0\<close>.
\<close>

datatype xcell = Row "pyval list" | Cell pyval

fun cell_eq_zero :: "xcell \<Rightarrow> bool" where
  "cell_eq_zero (Row vs) = False"
| "cell_eq_zero (Cell v) = eq_zero v"

datatype 'a exported = Dumped 'a | Plain 'a

text \<open>
  One of the two edge assignments of \<^verbatim>\<open>Metric.xport\<close> (\<^verbatim>\<open>models.py\<close> 394-398):
  \<^verbatim>\<open>if output['data'][i] == 0.0: output['data'][i] = output[key][j]\<close>.
\<close>

definition xport_edge ::
  "string \<Rightarrow> int \<Rightarrow> int \<Rightarrow> (string \<rightharpoonup> xcell list) \<Rightarrow> pyerr + (string \<rightharpoonup> xcell list)" where
  "xport_edge key i j output =
     (case output ''data'' of
        None \<Rightarrow> Inl KeyError
      | Some d \<Rightarrow>
          (case py_get d i of
             Inl e \<Rightarrow> Inl e
           | Inr c \<Rightarrow>
               if cell_eq_zero c then
                 (case output key of
                    None \<Rightarrow> Inl KeyError
                  | Some ks \<Rightarrow>
                      (case py_get ks j of
                         Inl e \<Rightarrow> Inl e
                       | Inr v \<Rightarrow> Inr (output(''data'' \<mapsto> py_set d i v))))
               else Inr output))"

text \<open>
  \<^verbatim>\<open>Metric.xport(args, object_list, op, un_value, json)\<close>. The call of the binding is
  the parameter \<open>rrdtool_xport\<close>.
\<close>

definition xport ::
  "(string list \<Rightarrow> pyerr + (string \<rightharpoonup> xcell list)) \<Rightarrow> world \<Rightarrow> metric \<Rightarrow> string list \<Rightarrow>
   entity list \<Rightarrow> string \<Rightarrow> string \<Rightarrow> bool \<Rightarrow>
   pyerr + (string \<rightharpoonup> xcell list) exported option" where
  "xport rrdtool_xport w m args object_list op un_value json =
     (let key = parameter m
      in case export_defs w m key object_list (args, []) of
           Inl e \<Rightarrow> Inl e
         | Inr (args1, xvars) \<Rightarrow>
             if xvars = [] then Inr None
             else
               (let args2 = args1 @ [cdef_arg key (cdef_rpn xvars op un_value)]
                              @ [''XPORT:'' @ key @ '':'' @ key]
                in case rrdtool_xport args2 of
                     Inl e \<Rightarrow> Inl e
                   | Inr output \<Rightarrow>
                       (case output ''data'' of
                          None \<Rightarrow> Inl KeyError
                        | Some d \<Rightarrow>
                            if d = [] then Inr None
                            else
                              (case xport_edge key (- 1) (- 2) output of
                                 Inl e \<Rightarrow> Inl e
                               | Inr output1 \<Rightarrow>
                                   (case xport_edge key 0 1 output1 of
                                      Inl e \<Rightarrow> Inl e
                                    | Inr output2 \<Rightarrow>
                                        Inr (Some (if json then Dumped output2
                                                   else Plain output2)))))))"

subsection \<open>The multi-metric export\<close>

text \<open>
  The first loop of \<^verbatim>\<open>_rrd_export_wrap\<close> over \<^verbatim>\<open>exports.iteritems()\<close>; the dict is a
  list of (label, metric) pairs in iteration order. The state is \<^verbatim>\<open>(args, keys)\<close>;
  \<open>Inr None\<close> is the \<^verbatim>\<open>return None\<close> inside the loop.
\<close>

fun wrap_defs ::
  "world \<Rightarrow> entity list \<Rightarrow> string \<Rightarrow> string \<Rightarrow> (string \<times> metric) list \<Rightarrow>
   string list \<times> string list \<Rightarrow> pyerr + (string list \<times> string list) option" where
  "wrap_defs w object_list op un_value [] st = Inr (Some st)"
| "wrap_defs w object_list op un_value ((key, m) # exports) st =
     (case export_defs w m key object_list (fst st, []) of
        Inl e \<Rightarrow> Inl e
      | Inr (args1, xvars) \<Rightarrow>
          if xvars = [] then Inr None
          else wrap_defs w object_list op un_value exports
                 (args1 @ [cdef_arg key (cdef_rpn xvars op un_value)] @ [''XPORT:'' @ key],
                  snd st @ [key]))"

text \<open>\<^verbatim>\<open>output[key] += [v]\<close>.\<close>

definition out_append ::
  "(string \<rightharpoonup> pyval list) \<Rightarrow> string \<Rightarrow> pyval \<Rightarrow> pyerr + (string \<rightharpoonup> pyval list)" where
  "out_append output key v =
     (case output key of
        None \<Rightarrow> Inl KeyError
      | Some xs \<Rightarrow> Inr (output(key \<mapsto> xs @ [v])))"

text \<open>
  The loop \<^verbatim>\<open>for counter, key in enumerate(keys)\<close> over one row: the text of the
  \<open>counter\<close>-th value, \<^verbatim>\<open>NaN\<close> as \<^verbatim>\<open>None\<close>, anything else through \<^verbatim>\<open>float\<close>.
\<close>

fun row_values ::
  "pyrt \<Rightarrow> string list \<Rightarrow> (nat \<times> string) list \<Rightarrow> (string \<rightharpoonup> pyval list) \<Rightarrow>
   pyerr + (string \<rightharpoonup> pyval list)" where
  "row_values rt values [] output = Inr output"
| "row_values rt values ((counter, key) # ks) output =
     (case py_get values (int counter) of
        Inl e \<Rightarrow> Inl e
      | Inr value \<Rightarrow>
          (case (if value = ''NaN'' \<or> value = ''nan'' then Inr PNone
                 else (case float_of_str rt value of
                         None \<Rightarrow> Inl ValueError
                       | Some x \<Rightarrow> Inr (PFloat x))) of
             Inl e \<Rightarrow> Inl e
           | Inr v \<Rightarrow>
               (case out_append output key v of
                  Inl e \<Rightarrow> Inl e
                | Inr output' \<Rightarrow> row_values rt values ks output')))"

text \<open>
  The loop over the rows of the document that the tool printed; a row is the text of
  its \<^verbatim>\<open>t\<close> element and the texts of its \<^verbatim>\<open>v\<close> elements.
\<close>

fun read_rows ::
  "pyrt \<Rightarrow> string list \<Rightarrow> (string \<times> string list) list \<Rightarrow> (string \<rightharpoonup> pyval list) \<Rightarrow>
   pyerr + (string \<rightharpoonup> pyval list)" where
  "read_rows rt keys [] output = Inr output"
| "read_rows rt keys ((t, values) # rows) output =
     (case int_of_str rt t of
        None \<Rightarrow> Inl ValueError
      | Some stamp \<Rightarrow>
          (case out_append output ''stamp'' (PInt stamp) of
             Inl e \<Rightarrow> Inl e
           | Inr output1 \<Rightarrow>
               (case row_values rt values (zip [0..<length keys] keys) output1 of
                  Inl e \<Rightarrow> Inl e
                | Inr output2 \<Rightarrow> read_rows rt keys rows output2)))"

text \<open>
  The edge assignments on one series (\<^verbatim>\<open>views.py\<close> 225-229): first the last point,
  then the first point.
\<close>

definition smooth_edges :: "pyval list \<Rightarrow> pyerr + pyval list" where
  "smooth_edges xs =
     (case py_get xs (- 1) of
        Inl e \<Rightarrow> Inl e
      | Inr l \<Rightarrow>
          (case (if eq_zero l
                 then (case py_get xs (- 2) of
                         Inl e \<Rightarrow> Inl e
                       | Inr v \<Rightarrow> Inr (py_set xs (- 1) v))
                 else Inr xs) of
             Inl e \<Rightarrow> Inl e
           | Inr xs1 \<Rightarrow>
               (case py_get xs1 0 of
                  Inl e \<Rightarrow> Inl e
                | Inr f \<Rightarrow>
                    if eq_zero f
                    then (case py_get xs1 1 of
                            Inl e \<Rightarrow> Inl e
                          | Inr v \<Rightarrow> Inr (py_set xs1 0 v))
                    else Inr xs1)))"

fun smooth_all ::
  "string list \<Rightarrow> (string \<rightharpoonup> pyval list) \<Rightarrow> pyerr + (string \<rightharpoonup> pyval list)" where
  "smooth_all [] output = Inr output"
| "smooth_all (key # keys) output =
     (case output key of
        None \<Rightarrow> Inl KeyError
      | Some xs \<Rightarrow>
          (case smooth_edges xs of
             Inl e \<Rightarrow> Inl e
           | Inr xs' \<Rightarrow> smooth_all keys (output(key \<mapsto> xs'))))"

text \<open>
  \<^verbatim>\<open>_rrd_export_wrap(args, object_list, exports, op, un_value, json)\<close>. The run of
  \<^verbatim>\<open>rrdtool xport\<close> is the parameter \<open>run_xport\<close>: \<open>Inl\<close> is the error output of a
  run that exits with a failure, \<open>Inr\<close> the rows of the document it printed.
\<close>

definition rrd_export_wrap ::
  "pyrt \<Rightarrow> (string list \<Rightarrow> string + (string \<times> string list) list) \<Rightarrow> world \<Rightarrow> string list \<Rightarrow>
   entity list \<Rightarrow> (string \<times> metric) list \<Rightarrow> string \<Rightarrow> string \<Rightarrow> bool \<Rightarrow>
   pyerr + (string \<rightharpoonup> pyval list) exported option" where
  "rrd_export_wrap rt run_xport w args object_list exports op un_value json =
     (case wrap_defs w object_list op un_value exports (args, []) of
        Inl e \<Rightarrow> Inl e
      | Inr None \<Rightarrow> Inr None
      | Inr (Some (args1, keys)) \<Rightarrow>
          (case run_xport args1 of
             Inl err \<Rightarrow> Inl (XportFailed (''rrdtool xport failed '' @ err))
           | Inr rows \<Rightarrow>
               (let output0 = fold (\<lambda>key out. out(key \<mapsto> [])) keys [''stamp'' \<mapsto> []]
                in case read_rows rt keys rows output0 of
                     Inl e \<Rightarrow> Inl e
                   | Inr output1 \<Rightarrow>
                       (case smooth_all keys output1 of
                          Inl e \<Rightarrow> Inl e
                        | Inr output2 \<Rightarrow>
                            Inr (Some (if json then Dumped output2 else Plain output2))))))"

subsection \<open>How the series store reads the expression\<close>

text \<open>
  The expression is evaluated by the series store (rrdtool), once for every slot of
  the time grid, on a stack. What follows is its documented reading of the tokens the
  code emits; it is the environment of the code, not part of it. A sample is a number
  or unknown (\<open>None\<close>).
  \<^item> A token that reads as a number is pushed; the forms with digits and a point are
    modelled.
  \<^item> \<^verbatim>\<open>UN\<close> replaces the top by 1 when it is unknown and by 0 otherwise.
  \<^item> \<^verbatim>\<open>EQ\<close> compares the two topmost values: 1 or 0, unknown when either is.
  \<^item> \<^verbatim>\<open>a,b,c,IF\<close> leaves \<open>c\<close> when \<open>a\<close> is 0 or unknown, and \<open>b\<close> otherwise.
  \<^item> \<^verbatim>\<open>+ - * MIN MAX\<close> are unknown when an operand is; \<^verbatim>\<open>ADDNAN\<close> reads one
    unknown operand as 0.
  \<^item> Any other token is the name of an input series and pushes its sample.
\<close>

type_synonym sample = "real option"

definition digit_val :: "char \<Rightarrow> nat option" where
  "digit_val c = map_of (zip ''0123456789'' [0, 1, 2, 3, 4, 5, 6, 7, 8, 9]) c"

fun read_digits :: "string \<Rightarrow> nat \<Rightarrow> nat option" where
  "read_digits [] acc = Some acc"
| "read_digits (c # cs) acc =
     (case digit_val c of None \<Rightarrow> None | Some d \<Rightarrow> read_digits cs (10 * acc + d))"

definition rrd_number :: "string \<Rightarrow> real option" where
  "rrd_number s =
     (let neg = (take 1 s = ''-'');
          body = (if neg then drop 1 s else s);
          ip = takeWhile (\<lambda>c. c \<noteq> CHR ''.'') body;
          fp = drop 1 (dropWhile (\<lambda>c. c \<noteq> CHR ''.'') body)
      in if ip = [] \<and> fp = [] then None
         else (case (read_digits ip 0, read_digits fp 0) of
                 (Some a, Some b) \<Rightarrow>
                   Some ((if neg then - 1 else 1) * (real a + real b / 10 ^ length fp))
               | _ \<Rightarrow> None))"

definition known2 :: "(real \<Rightarrow> real \<Rightarrow> real) \<Rightarrow> sample \<Rightarrow> sample \<Rightarrow> sample" where
  "known2 f a b = (case (a, b) of (Some x, Some y) \<Rightarrow> Some (f x y) | _ \<Rightarrow> None)"

definition rpn_binop :: "string \<Rightarrow> (sample \<Rightarrow> sample \<Rightarrow> sample) option" where
  "rpn_binop tok =
     (if tok = ''+'' then Some (known2 (+))
      else if tok = ''-'' then Some (known2 (-))
      else if tok = ''*'' then Some (known2 (*))
      else if tok = ''MIN'' then Some (known2 min)
      else if tok = ''MAX'' then Some (known2 max)
      else if tok = ''ADDNAN'' then
        Some (\<lambda>a b. case (a, b) of
                       (None, None) \<Rightarrow> None
                     | (Some x, None) \<Rightarrow> Some x
                     | (None, Some y) \<Rightarrow> Some y
                     | (Some x, Some y) \<Rightarrow> Some (x + y))
      else None)"

text \<open>One token; the stack grows at its head. \<open>None\<close> is a rejected expression.\<close>

definition rpn_step :: "(string \<rightharpoonup> sample) \<Rightarrow> string \<Rightarrow> sample list \<Rightarrow> sample list option" where
  "rpn_step env tok stk =
     (case rrd_number tok of
        Some r \<Rightarrow> Some (Some r # stk)
      | None \<Rightarrow>
          if tok = ''UN'' then
            (case stk of
               a # s \<Rightarrow> Some (Some (if a = None then 1 else 0) # s)
             | _ \<Rightarrow> None)
          else if tok = ''EQ'' then
            (case stk of
               b # a # s \<Rightarrow> Some (known2 (\<lambda>x y. if x = y then 1 else 0) a b # s)
             | _ \<Rightarrow> None)
          else if tok = ''IF'' then
            (case stk of
               c # b # a # s \<Rightarrow> Some ((if a = None \<or> a = Some 0 then c else b) # s)
             | _ \<Rightarrow> None)
          else
            (case rpn_binop tok of
               Some f \<Rightarrow>
                 (case stk of
                    b # a # s \<Rightarrow> Some (f a b # s)
                  | _ \<Rightarrow> None)
             | None \<Rightarrow>
                 (case env tok of
                    Some v \<Rightarrow> Some (v # stk)
                  | None \<Rightarrow> None)))"

fun rpn_run :: "(string \<rightharpoonup> sample) \<Rightarrow> string list \<Rightarrow> sample list \<Rightarrow> sample list option" where
  "rpn_run env [] stk = Some stk"
| "rpn_run env (tok # toks) stk =
     (case rpn_step env tok stk of
        None \<Rightarrow> None
      | Some stk' \<Rightarrow> rpn_run env toks stk')"

text \<open>The value of an expression at one slot: what is alone on the stack at the end.\<close>

definition rpn_eval :: "(string \<rightharpoonup> sample) \<Rightarrow> string list \<Rightarrow> sample option" where
  "rpn_eval env toks =
     (case rpn_run env toks [] of
        Some [v] \<Rightarrow> Some v
      | _ \<Rightarrow> None)"

text \<open>A name that the series store reads as an input series and as nothing else.\<close>

definition series_name :: "string \<Rightarrow> bool" where
  "series_name tok =
     (rrd_number tok = None \<and> tok \<noteq> ''UN'' \<and> tok \<noteq> ''EQ'' \<and> tok \<noteq> ''IF''
      \<and> rpn_binop tok = None)"

text \<open>What the wrapping of a variable is meant to compute from its sample.\<close>

definition fill :: "real \<Rightarrow> sample \<Rightarrow> sample" where
  "fill u a = (case a of None \<Rightarrow> Some u | Some x \<Rightarrow> if x = 0 then Some u else Some x)"

section \<open>A sample installation\<close>

text \<open>
  The settings of \<^verbatim>\<open>Metric.__init__\<close> at their defaults, a float metric with primary
  key 7, an empty world whose cache transport stores values as they are, and a runtime
  that reads decimal texts. The concrete instances of the theorems below are stated
  on these.
\<close>

definition read_int :: "string \<Rightarrow> int option" where
  "read_int s =
     (let neg = (take 1 s = ''-''); body = (if neg then drop 1 s else s)
      in if body = [] then None
         else (case read_digits body 0 of
                 None \<Rightarrow> None
               | Some n \<Rightarrow> Some (if neg then - int n else int n)))"

definition sample_rt :: pyrt where
  "sample_rt =
     \<lparr>float_of_str = rrd_number, int_of_str = read_int,
      str_of_float = (\<lambda>x. str_int \<lfloor>x\<rfloor> @ ''.0'')\<rparr>"

definition sample_metric :: metric where
  "sample_metric =
     \<lparr>mpk = 7, parameter = ''traffic'', mtype = ''float'', rrd_enabled = True,
      cache_timeout = 0, rrd_root = ''/var/lib/rrdcached/db'', cache_prefix = ''timegraph'',
      heartbeat = 300, queue_size = 3000, lcache = Map.empty, queue = []\<rparr>"

definition sample_world :: world where
  "sample_world =
     \<lparr>shared = Map.empty, wire = (\<lambda>v. v), get_trips = [], set_trips = [],
      archives = Map.empty, dirs = {}, faults = Map.empty, logged = []\<rparr>"

definition line :: "pkey \<Rightarrow> entity" where
  "line k = \<lparr>cls = ''Line'', epk = k\<rparr>"

section \<open>What a batch read leaves behind\<close>

text \<open>
  The keys that \<^verbatim>\<open>get_polling_many\<close> asks the shared cache for, and the metric and
  the world after the call, written out for the proofs.
\<close>

definition wanted_keys :: "metric \<Rightarrow> entity list \<Rightarrow> (string \<times> pkey) list" where
  "wanted_keys m objs =
     map (\<lambda>obj. (cache_key (pre_key_for m (hd objs)) (epk obj), epk obj))
         (filter (\<lambda>obj. lcache m (epk obj) = None) objs)"

definition polled_metric :: "pyrt \<Rightarrow> metric \<Rightarrow> world \<Rightarrow> entity list \<Rightarrow> bool \<Rightarrow> metric" where
  "polled_metric rt m w objs f =
     (if wanted_keys m objs = [] then m
      else m\<lparr>lcache := fill_cache rt m f (shared w |` set (map fst (wanted_keys m objs)))
                          (wanted_keys m objs) (lcache m)\<rparr>)"

definition polled_world :: "metric \<Rightarrow> world \<Rightarrow> entity list \<Rightarrow> world" where
  "polled_world m w objs =
     (if wanted_keys m objs = [] then w
      else w\<lparr>get_trips := get_trips w @ [map fst (wanted_keys m objs)]\<rparr>)"

text \<open>
  A world in which object 1 has a healthy archive, object 2 an archive that refuses
  updates, and object 3 no archive and no directory.
\<close>

definition troubled_world :: world where
  "troubled_world =
     sample_world
       \<lparr>archives :=
          [''/var/lib/rrdcached/db/line/1/7.rrd''
             \<mapsto> \<lparr>defn = create_args sample_metric, samples = [PFloat 4]\<rparr>,
           ''/var/lib/rrdcached/db/line/2/7.rrd''
             \<mapsto> \<lparr>defn = create_args sample_metric, samples = []\<rparr>],
        dirs := {''/var/lib/rrdcached/db/line/1'', ''/var/lib/rrdcached/db/line/2''},
        faults :=
          [''/var/lib/rrdcached/db/line/2/7.rrd''
             \<mapsto> ''illegal attempt to update using time 1300000000'']\<rparr>"

text \<open>A metric without archives whose queue holds two pairs before it is flushed.\<close>

definition small_queue_metric :: metric where
  "small_queue_metric = sample_metric\<lparr>rrd_enabled := False, queue_size := 2\<rparr>"

text \<open>The samples that the archive at a path holds; none when there is no archive.\<close>

definition samples_of :: "world \<Rightarrow> string \<Rightarrow> pyval list" where
  "samples_of w p = (case archives w p of None \<Rightarrow> [] | Some a \<Rightarrow> samples a)"

text \<open>
  Combining the samples of one slot as the operators at the end of the expression do:
  the first operator that runs takes the last two series.
\<close>

fun combine :: "(sample \<Rightarrow> sample \<Rightarrow> sample) \<Rightarrow> sample \<Rightarrow> sample list \<Rightarrow> sample" where
  "combine f a [] = a"
| "combine f a (v # vs) = f a (combine f v vs)"

text \<open>
  Two answers of the binding for a series of four slots: the rows as the binding
  returns them (one tuple per slot), and the same values as plain numbers.
\<close>

definition rows_answer :: "string list \<Rightarrow> pyerr + (string \<rightharpoonup> xcell list)" where
  "rows_answer args =
     Inr [''data'' \<mapsto> [Row [PFloat 0], Row [PFloat 5], Row [PFloat 5], Row [PFloat 0]]]"

definition flat_answer :: "string list \<Rightarrow> pyerr + (string \<rightharpoonup> xcell list)" where
  "flat_answer args =
     Inr [''data'' \<mapsto> [Cell (PFloat 0), Cell (PFloat 5), Cell (PFloat 5), Cell (PFloat 0)]]"

section \<open>Archive paths and cache keys: determinism and collisions\<close>

lemma colliding_keys:
  "rrd_path m \<lparr>cls = c, epk = PkStr ''a:b''\<rparr> = rrd_path m \<lparr>cls = c, epk = PkStr ''ab''\<rparr>
   \<and> cache_key (pre_key_for m \<lparr>cls = c, epk = PkStr ''a:b''\<rparr>) (PkStr ''a:b'')
     = cache_key (pre_key_for m \<lparr>cls = c, epk = PkStr ''ab''\<rparr>) (PkStr ''ab'')"
  by (simp add: rrd_path_def cache_key_def pre_key_for_def strip_colons_def objtype_def)

lemma sample_path:
  "rrd_path sample_metric (line (PkStr ''00:1a'')) = ''/var/lib/rrdcached/db/line/001a/7.rrd''"
  by (simp add: rrd_path_def sample_metric_def line_def objtype_def lower_char_def strip_colons_def
        path_join_def join2_def str_int_def str_nat.simps digit_char_def)

text \<open>
  Claim C10. The archive path is a function of the archive root, the entity type, the
  entity key and the metric's primary key only, and it is not injective in the entity
  key: for every metric and entity type there are two distinct keys (\<^verbatim>\<open>a:b\<close> and
  \<^verbatim>\<open>ab\<close>, which differ by a colon only) with the same archive path and the same
  shared-cache key.
\<close>

theorem rrd_path_deterministic_not_injective:
  "(rrd_root m = rrd_root m' \<and> mpk m = mpk m' \<and> objtype obj = objtype obj' \<and> epk obj = epk obj'
      \<longrightarrow> rrd_path m obj = rrd_path m' obj')
   \<and> (\<exists>k1 k2. k1 \<noteq> k2
         \<and> rrd_path m \<lparr>cls = c, epk = k1\<rparr> = rrd_path m \<lparr>cls = c, epk = k2\<rparr>
         \<and> cache_key (pre_key_for m \<lparr>cls = c, epk = k1\<rparr>) k1
           = cache_key (pre_key_for m \<lparr>cls = c, epk = k2\<rparr>) k2)"
proof (rule conjI)
  show "rrd_root m = rrd_root m' \<and> mpk m = mpk m' \<and> objtype obj = objtype obj' \<and> epk obj = epk obj'
      \<longrightarrow> rrd_path m obj = rrd_path m' obj'"
    by (simp add: rrd_path_def)
next
  have "PkStr ''a:b'' \<noteq> PkStr ''ab''" by simp
  with colliding_keys [of m c]
  show "\<exists>k1 k2. k1 \<noteq> k2
         \<and> rrd_path m \<lparr>cls = c, epk = k1\<rparr> = rrd_path m \<lparr>cls = c, epk = k2\<rparr>
         \<and> cache_key (pre_key_for m \<lparr>cls = c, epk = k1\<rparr>) k1
           = cache_key (pre_key_for m \<lparr>cls = c, epk = k2\<rparr>) k2"
    by (intro exI [of _ "PkStr ''a:b''"] exI [of _ "PkStr ''ab''"]) (rule conjI, assumption+)
qed

text \<open>
  Two metrics that differ in their parameter only, and two objects whose class names
  differ in case only, share the archive of the sample installation.
\<close>

theorem rrd_path_deterministic_witness:
  "rrd_root sample_metric = rrd_root (sample_metric\<lparr>parameter := ''errors''\<rparr>)
   \<and> mpk sample_metric = mpk (sample_metric\<lparr>parameter := ''errors''\<rparr>)
   \<and> objtype (line (PkStr ''00:1a'')) = objtype \<lparr>cls = ''LINE'', epk = PkStr ''00:1a''\<rparr>
   \<and> epk (line (PkStr ''00:1a'')) = epk \<lparr>cls = ''LINE'', epk = PkStr ''00:1a''\<rparr>
   \<and> rrd_path sample_metric (line (PkStr ''00:1a''))
       = rrd_path (sample_metric\<lparr>parameter := ''errors''\<rparr>) \<lparr>cls = ''LINE'', epk = PkStr ''00:1a''\<rparr>"
proof -
  have h: "rrd_root sample_metric = rrd_root (sample_metric\<lparr>parameter := ''errors''\<rparr>)
   \<and> mpk sample_metric = mpk (sample_metric\<lparr>parameter := ''errors''\<rparr>)
   \<and> objtype (line (PkStr ''00:1a'')) = objtype \<lparr>cls = ''LINE'', epk = PkStr ''00:1a''\<rparr>
   \<and> epk (line (PkStr ''00:1a'')) = epk \<lparr>cls = ''LINE'', epk = PkStr ''00:1a''\<rparr>"
    by (simp add: line_def objtype_def lower_char_def)
  from rrd_path_deterministic_not_injective
         [of sample_metric "sample_metric\<lparr>parameter := ''errors''\<rparr>" "line (PkStr ''00:1a'')"
             "\<lparr>cls = ''LINE'', epk = PkStr ''00:1a''\<rparr>", THEN conjunct1, THEN mp, OF h] h
  show ?thesis by simp
qed

section \<open>Decoding: the boolean kind\<close>

text \<open>
  Claim C6 as stated fails: for the boolean kind a missing raw value decodes to null
  when the caller does not force the metric type.
\<close>

theorem to_python_bool_null_counterexample:
  "to_python sample_rt (sample_metric\<lparr>mtype := ''bool''\<rparr>) PNone False = PNone"
  by (simp add: to_python_def)

text \<open>
  Claim C6, amended. For the boolean kind the texts \<^verbatim>\<open>1\<close> and \<^verbatim>\<open>True\<close>, and
  nothing else, decode to true. The result is null exactly when the type is not forced
  and the raw value is missing; every other input decodes to false. The float and
  integer kinds return null for every raw value that does not convert when the type is
  not forced.
\<close>

theorem to_python_bool:
  "mtype m = ''bool'' \<Longrightarrow>
     (to_python rt m v strict = PBool True \<longleftrightarrow> v = PStr ''1'' \<or> v = PStr ''True'')
   \<and> (to_python rt m v strict = PNone \<longleftrightarrow> \<not> strict \<and> v = PNone)
   \<and> (to_python rt m v strict = PBool False
        \<longleftrightarrow> v \<noteq> PStr ''1'' \<and> v \<noteq> PStr ''True'' \<and> (strict \<or> v \<noteq> PNone))
   \<and> (\<forall>m' e. mtype m' = ''float'' \<and> py_float rt v = Inl e \<longrightarrow> to_python rt m' v False = PNone)
   \<and> (\<forall>m' e. mtype m' = ''int'' \<and> py_int rt v = Inl e \<longrightarrow> to_python rt m' v False = PNone)"
  by (auto simp add: to_python_def)

theorem to_python_bool_witness:
  "mtype (sample_metric\<lparr>mtype := ''bool''\<rparr>) = ''bool''
   \<and> to_python sample_rt (sample_metric\<lparr>mtype := ''bool''\<rparr>) (PStr ''True'') False = PBool True
   \<and> to_python sample_rt (sample_metric\<lparr>mtype := ''bool''\<rparr>) (PStr ''yes'') False = PBool False
   \<and> to_python sample_rt (sample_metric\<lparr>mtype := ''bool''\<rparr>) PNone True = PBool False
   \<and> py_float sample_rt (PStr ''yes'') = Inl ValueError
   \<and> to_python sample_rt sample_metric (PStr ''yes'') False = PNone"
proof -
  have h: "mtype (sample_metric\<lparr>mtype := ''bool''\<rparr>) = ''bool''" by simp
  have f: "mtype sample_metric = ''float''" by (simp add: sample_metric_def)
  have p: "py_float sample_rt (PStr ''yes'') = Inl ValueError"
    by (simp add: sample_rt_def rrd_number_def digit_val_def)
  note t1 = to_python_bool [OF h, of sample_rt "PStr ''True''" False]
  note t2 = to_python_bool [OF h, of sample_rt "PStr ''yes''" False]
  note t3 = to_python_bool [OF h, of sample_rt PNone True]
  from t1 have a: "to_python sample_rt (sample_metric\<lparr>mtype := ''bool''\<rparr>) (PStr ''True'') False = PBool True"
    by simp
  from t2 have b: "to_python sample_rt (sample_metric\<lparr>mtype := ''bool''\<rparr>) (PStr ''yes'') False = PBool False"
    by simp
  from t3 have c: "to_python sample_rt (sample_metric\<lparr>mtype := ''bool''\<rparr>) PNone True = PBool False"
    by simp
  from t2 f p have d: "to_python sample_rt sample_metric (PStr ''yes'') False = PNone"
    by blast
  from h a b c p d show ?thesis by simp
qed

section \<open>Reading: round trips and cached misses\<close>

lemma fill_cache_other:
  "k \<notin> snd ` set keys \<Longrightarrow> fill_cache rt m f mt keys c k = c k"
  by (induction keys arbitrary: c) (auto split: option.splits)

lemma fill_cache_value:
  "k \<in> snd ` set keys \<Longrightarrow> \<forall>p \<in> set keys. snd p = k \<longrightarrow> fst p = key \<Longrightarrow>
   fill_cache rt m f mt keys c k
     = Some (case mt key of Some raw \<Rightarrow> to_python rt m raw f | None \<Rightarrow> PNone)"
proof (induction keys arbitrary: c)
  case Nil
  then show ?case by simp
next
  case (Cons p keys)
  obtain key' k' where p: "p = (key', k')" by (cases p)
  show ?case
  proof (cases "k \<in> snd ` set keys")
    case True
    with Cons show ?thesis by (simp add: p)
  next
    case False
    with Cons.prems p have "k' = k" "key' = key" by auto
    with False show ?thesis
      by (simp add: p fill_cache_other split: option.splits)
  qed
qed

lemma get_cached_polling_list_ok:
  "\<forall>obj \<in> set objs. lcache m (epk obj) \<noteq> None \<Longrightarrow>
   get_cached_polling_list m objs = Inr (map (\<lambda>obj. the (lcache m (epk obj))) objs)"
  by (induction objs) auto

lemma wanted_keys_empty:
  "wanted_keys m objs = [] \<longleftrightarrow> (\<forall>obj \<in> set objs. lcache m (epk obj) \<noteq> None)"
  by (auto simp add: wanted_keys_def filter_empty_conv)

lemma wanted_keys_snd:
  "snd ` set (wanted_keys m objs) = {k. \<exists>obj \<in> set objs. epk obj = k \<and> lcache m k = None}"
  by (auto simp add: wanted_keys_def image_iff)

lemma wanted_keys_fst:
  "\<forall>p \<in> set (wanted_keys m objs). snd p = k \<longrightarrow> fst p = cache_key (pre_key_for m (hd objs)) k"
  by (auto simp add: wanted_keys_def)

lemma polled_metric_cached:
  assumes "obj \<in> set objs"
  shows "lcache (polled_metric rt m w objs f) (epk obj) \<noteq> None"
proof (cases "lcache m (epk obj) = None")
  case True
  with assms have in_keys: "epk obj \<in> snd ` set (wanted_keys m objs)"
    by (auto simp add: wanted_keys_snd)
  then have ne: "wanted_keys m objs \<noteq> []" by auto
  from fill_cache_value [OF in_keys wanted_keys_fst]
  show ?thesis by (simp add: polled_metric_def ne)
next
  case False
  then have "epk obj \<notin> snd ` set (wanted_keys m objs)"
    by (auto simp add: wanted_keys_snd)
  with False show ?thesis
    by (simp add: polled_metric_def fill_cache_other)
qed

lemma get_polling_many_eq:
  "get_polling_many rt m w objs nr f =
     Inr (if objs = [] then Some []
          else if nr then None
          else Some (map (\<lambda>obj. the (lcache (polled_metric rt m w objs f) (epk obj))) objs),
          polled_metric rt m w objs f, polled_world m w objs)"
proof (cases objs)
  case Nil
  then show ?thesis
    by (simp add: get_polling_many_def polled_metric_def polled_world_def wanted_keys_def)
next
  case (Cons first rest)
  have k: "map (\<lambda>obj. (cache_key (pre_key_for m first) (epk obj), epk obj))
             (filter (\<lambda>obj. lcache m (epk obj) = None) objs) = wanted_keys m objs"
    by (simp add: wanted_keys_def Cons)
  have c: "get_cached_polling_list (polled_metric rt m w objs f) objs
             = Inr (map (\<lambda>obj. the (lcache (polled_metric rt m w objs f) (epk obj))) objs)"
    by (rule get_cached_polling_list_ok) (simp add: polled_metric_cached)
  have e: "get_polling_many rt m w objs nr f =
          (let keys = wanted_keys m objs;
               mw = (if keys \<noteq> [] then
                       (let gm = cache_get_many w (map fst keys)
                        in (m\<lparr>lcache := fill_cache rt m f (fst gm) keys (lcache m)\<rparr>, snd gm))
                     else (m, w))
           in if nr then Inr (None, fst mw, snd mw)
              else (case get_cached_polling_list (fst mw) objs of
                      Inl e \<Rightarrow> Inl e
                    | Inr vs \<Rightarrow> Inr (Some vs, fst mw, snd mw)))"
    unfolding get_polling_many_def Cons [symmetric] k [symmetric]
    by (simp add: Cons Let_def)
  have ne: "objs \<noteq> []" by (simp add: Cons)
  show ?thesis
  proof (cases "wanted_keys m objs = []")
    case True
    then have pm: "polled_metric rt m w objs f = m" and pw: "polled_world m w objs = w"
      by (simp_all add: polled_metric_def polled_world_def)
    from c have c': "get_cached_polling_list m objs
                       = Inr (map (\<lambda>obj. the (lcache m (epk obj))) objs)"
      by (simp add: pm)
    show ?thesis
      by (simp add: e True Let_def pm pw ne c')
  next
    case False
    then have pm: "polled_metric rt m w objs f
                     = m\<lparr>lcache := fill_cache rt m f (shared w |` set (map fst (wanted_keys m objs)))
                          (wanted_keys m objs) (lcache m)\<rparr>"
      and pw: "polled_world m w objs = w\<lparr>get_trips := get_trips w @ [map fst (wanted_keys m objs)]\<rparr>"
      by (simp_all add: polled_metric_def polled_world_def)
    from c have c': "get_cached_polling_list
                       (m\<lparr>lcache := fill_cache rt m f (shared w |` set (map fst (wanted_keys m objs)))
                          (wanted_keys m objs) (lcache m)\<rparr>) objs
                       = Inr (map (\<lambda>obj. the (fill_cache rt m f (shared w |` set (map fst (wanted_keys m objs)))
                          (wanted_keys m objs) (lcache m) (epk obj))) objs)"
      by (simp add: pm)
    show ?thesis
      using c' by (simp add: e False cache_get_many_def Let_def pm pw ne)
  qed
qed


lemma polled_again:
  "polled_metric rt2 (polled_metric rt m w objs f) w2 objs f2 = polled_metric rt m w objs f"
  "polled_world (polled_metric rt m w objs f) w2 objs = w2"
proof -
  have "wanted_keys (polled_metric rt m w objs f) objs = []"
    by (simp add: wanted_keys_empty polled_metric_cached)
  then show "polled_metric rt2 (polled_metric rt m w objs f) w2 objs f2 = polled_metric rt m w objs f"
    and "polled_world (polled_metric rt m w objs f) w2 objs = w2"
    by (simp_all add: polled_metric_def [of rt2] polled_world_def)
qed

lemma polled_miss:
  assumes "obj \<in> set objs" "lcache m (epk obj) = None"
    and "shared w (cache_key (pre_key_for m (hd objs)) (epk obj)) = None"
  shows "lcache (polled_metric rt m w objs f) (epk obj) = Some PNone"
proof -
  from assms have in_keys: "epk obj \<in> snd ` set (wanted_keys m objs)"
    by (auto simp add: wanted_keys_snd)
  then have ne: "wanted_keys m objs \<noteq> []" by auto
  from fill_cache_value [OF in_keys wanted_keys_fst] assms(3)
  show ?thesis by (simp add: polled_metric_def ne restrict_map_def)
qed

text \<open>
  Claim C7. A call of \<^verbatim>\<open>get_polling_many\<close> always returns, and makes at most one
  round trip to the shared cache: none when every requested object is in the local
  cache. Every object that was neither in the local cache nor in the shared cache is
  in the local cache afterwards, with the value null. A second call for the same batch
  on the metric and the world that the first call left makes no round trip and changes
  nothing.
\<close>

theorem get_polling_many_round_trips:
  "\<exists>res m' w'. get_polling_many rt m w objs nr f = Inr (res, m', w')
     \<and> (get_trips w' = get_trips w \<or> (\<exists>keys. get_trips w' = get_trips w @ [keys]))
     \<and> ((\<forall>obj \<in> set objs. lcache m (epk obj) \<noteq> None) \<longrightarrow> get_trips w' = get_trips w)
     \<and> (\<forall>obj \<in> set objs.
           lcache m (epk obj) = None
           \<and> shared w (cache_key (pre_key_for m (hd objs)) (epk obj)) = None
           \<longrightarrow> lcache m' (epk obj) = Some PNone)
     \<and> (\<forall>nr2 f2. \<exists>res2. get_polling_many rt m' w' objs nr2 f2 = Inr (res2, m', w'))"
proof (intro exI conjI)
  show "get_polling_many rt m w objs nr f =
     Inr (if objs = [] then Some []
          else if nr then None
          else Some (map (\<lambda>obj. the (lcache (polled_metric rt m w objs f) (epk obj))) objs),
          polled_metric rt m w objs f, polled_world m w objs)"
    by (rule get_polling_many_eq)
  show "get_trips (polled_world m w objs) = get_trips w
        \<or> (\<exists>keys. get_trips (polled_world m w objs) = get_trips w @ [keys])"
    by (simp add: polled_world_def)
  show "(\<forall>obj \<in> set objs. lcache m (epk obj) \<noteq> None)
        \<longrightarrow> get_trips (polled_world m w objs) = get_trips w"
    by (simp add: polled_world_def wanted_keys_empty)
  show "\<forall>obj \<in> set objs.
           lcache m (epk obj) = None
           \<and> shared w (cache_key (pre_key_for m (hd objs)) (epk obj)) = None
           \<longrightarrow> lcache (polled_metric rt m w objs f) (epk obj) = Some PNone"
    by (simp add: polled_miss)
  show "\<forall>nr2 f2. \<exists>res2. get_polling_many rt (polled_metric rt m w objs f) (polled_world m w objs)
                            objs nr2 f2
                          = Inr (res2, polled_metric rt m w objs f, polled_world m w objs)"
    by (simp add: get_polling_many_eq polled_again)
qed

text \<open>Two objects that nobody has written yet, read twice.\<close>

theorem get_polling_many_round_trips_witness:
  "\<exists>res m' w'.
     get_polling_many sample_rt sample_metric sample_world [line (PkInt 1), line (PkInt 2)] False True
       = Inr (res, m', w')
     \<and> length (get_trips w') = 1
     \<and> lcache m' (PkInt 1) = Some PNone
     \<and> lcache m' (PkInt 2) = Some PNone
     \<and> (\<exists>res2. get_polling_many sample_rt m' w' [line (PkInt 1), line (PkInt 2)] False True
                  = Inr (res2, m', w'))"
proof -
  let ?objs = "[line (PkInt 1), line (PkInt 2)]"
  from get_polling_many_round_trips [of sample_rt sample_metric sample_world ?objs False True]
  obtain res m' w' where
    r: "get_polling_many sample_rt sample_metric sample_world ?objs False True = Inr (res, m', w')"
    and t: "get_trips w' = get_trips sample_world \<or> (\<exists>keys. get_trips w' = get_trips sample_world @ [keys])"
    and z: "(\<forall>obj \<in> set ?objs. lcache sample_metric (epk obj) \<noteq> None) \<longrightarrow> get_trips w' = get_trips sample_world"
    and n: "\<forall>obj \<in> set ?objs.
           lcache sample_metric (epk obj) = None
           \<and> shared sample_world (cache_key (pre_key_for sample_metric (hd ?objs)) (epk obj)) = None
           \<longrightarrow> lcache m' (epk obj) = Some PNone"
    and a: "\<forall>nr2 f2. \<exists>res2. get_polling_many sample_rt m' w' ?objs nr2 f2 = Inr (res2, m', w')"
    by (elim exE conjE)
  have w': "w' = polled_world sample_metric sample_world ?objs"
    using r by (simp add: get_polling_many_eq)
  have "wanted_keys sample_metric ?objs \<noteq> []"
    by (simp add: wanted_keys_def sample_metric_def)
  then have l: "length (get_trips w') = 1"
    by (simp add: w' polled_world_def sample_world_def)
  from n have n1: "lcache m' (PkInt 1) = Some PNone" and n2: "lcache m' (PkInt 2) = Some PNone"
    by (simp_all add: sample_metric_def sample_world_def line_def)
  from a [rule_format, of False True]
  obtain res2 where "get_polling_many sample_rt m' w' ?objs False True = Inr (res2, m', w')"
    by (elim exE)
  with r l n1 n2 show ?thesis by (intro exI conjI)
qed

section \<open>Writing: failures of the series store\<close>

lemma missing_message:
  "sublist ''No such file'' (no_such_file doing p)"
proof -
  have "no_such_file doing p = (doing @ p @ '': '') @ ''No such file'' @ '' or directory''"
    by (simp add: no_such_file_def)
  then show ?thesis
    unfolding sublist_def by blast
qed

lemma set_polling_one_plain:
  "\<not> (rrd_enabled m \<and> archivable v) \<Longrightarrow>
   set_polling_one m pre_key pre_path filename (obj, v) (cd, w)
     = Inr (AList.update (fmt_s pre_key (strip_colons (pk_str (epk obj)))) v cd, w)"
  by (auto simp add: set_polling_one_def Let_def)

lemma set_polling_one_appended:
  "rrd_enabled m \<Longrightarrow> archivable v \<Longrightarrow>
   archives w (path_join pre_path [strip_colons (pk_str (epk obj)), filename]) = Some a \<Longrightarrow>
   faults w (path_join pre_path [strip_colons (pk_str (epk obj)), filename]) = None \<Longrightarrow>
   set_polling_one m pre_key pre_path filename (obj, v) (cd, w)
     = Inr (AList.update (fmt_s pre_key (strip_colons (pk_str (epk obj)))) v cd,
            w\<lparr>archives := (archives w)
                 (path_join pre_path [strip_colons (pk_str (epk obj)), filename]
                    \<mapsto> a\<lparr>samples := samples a @ [v]\<rparr>)\<rparr>)"
  by (simp add: set_polling_one_def Let_def rrd_update_def)

lemma set_polling_one_skipped:
  "rrd_enabled m \<Longrightarrow> archivable v \<Longrightarrow>
   archives w (path_join pre_path [strip_colons (pk_str (epk obj)), filename]) = Some a \<Longrightarrow>
   faults w (path_join pre_path [strip_colons (pk_str (epk obj)), filename]) = Some msg \<Longrightarrow>
   \<not> sublist ''No such file'' msg \<Longrightarrow>
   set_polling_one m pre_key pre_path filename (obj, v) (cd, w)
     = Inr (AList.update (fmt_s pre_key (strip_colons (pk_str (epk obj)))) v cd,
            w\<lparr>logged := logged w @ [(parameter m, strip_colons (pk_str (epk obj)), msg)]\<rparr>)"
  by (simp add: set_polling_one_def Let_def rrd_update_def)

lemma set_polling_one_created:
  assumes "rrd_enabled m" "archivable v"
    and "archives w (path_join pre_path [strip_colons (pk_str (epk obj)), filename]) = None"
    and "faults w (path_join pre_path [strip_colons (pk_str (epk obj)), filename]) = None"
    and "path_exists w (dirname (path_join pre_path [strip_colons (pk_str (epk obj)), filename]))
         \<longrightarrow> dirname (path_join pre_path [strip_colons (pk_str (epk obj)), filename]) \<in> dirs w"
  shows "set_polling_one m pre_key pre_path filename (obj, v) (cd, w)
     = Inr (AList.update (fmt_s pre_key (strip_colons (pk_str (epk obj)))) v cd,
            w\<lparr>dirs := insert (dirname (path_join pre_path [strip_colons (pk_str (epk obj)), filename]))
                         (dirs w),
              archives := (archives w)
                 (path_join pre_path [strip_colons (pk_str (epk obj)), filename]
                    \<mapsto> \<lparr>defn = create_args m, samples = [v]\<rparr>)\<rparr>)"
proof -
  let ?p = "path_join pre_path [strip_colons (pk_str (epk obj)), filename]"
  let ?d = "dirname ?p"
  let ?w1 = "w\<lparr>dirs := insert ?d (dirs w)\<rparr>"
  let ?w2 = "?w1\<lparr>archives := (archives w)(?p \<mapsto> \<lparr>defn = create_args m, samples = []\<rparr>)\<rparr>"
  have u: "rrd_update w ?p v = Inl (no_such_file ''opening '' ?p)"
    using assms(3) by (simp add: rrd_update_def)
  have w1: "(if \<not> path_exists w ?d then makedirs w ?d else w) = ?w1"
  proof (cases "path_exists w ?d")
    case True
    with assms(5) have "insert ?d (dirs w) = dirs w" by (simp add: insert_absorb)
    with True show ?thesis by simp
  next
    case False
    then show ?thesis by (simp add: makedirs_def)
  qed
  have c: "rrd_create ?w1 ?p (create_args m) = Inr ?w2"
    by (simp add: rrd_create_def)
  have u2: "rrd_update ?w2 ?p v
              = Inr (?w1\<lparr>archives := (archives w)(?p \<mapsto> \<lparr>defn = create_args m, samples = [v]\<rparr>)\<rparr>)"
    using assms(4) by (simp add: rrd_update_def)
  have "set_polling_one m pre_key pre_path filename (obj, v) (cd, w)
          = (case rrd_create (if \<not> path_exists w ?d then makedirs w ?d else w) ?p (create_args m) of
               Inl e \<Rightarrow> Inl (RrdError e)
             | Inr w2 \<Rightarrow>
                 (case rrd_update w2 ?p v of
                    Inl e \<Rightarrow> Inl (RrdError e)
                  | Inr w3 \<Rightarrow>
                      Inr (AList.update (fmt_s pre_key (strip_colons (pk_str (epk obj)))) v cd, w3)))"
    using assms(1,2) by (simp add: set_polling_one_def Let_def u missing_message)
  then show ?thesis
    by (simp only: w1 c u2 sum.case)
qed

lemma set_polling_one_cache:
  assumes "set_polling_one m pre_key pre_path filename (obj, v) (cd, w) = Inr (cd', w')"
  shows "cd' = AList.update (fmt_s pre_key (strip_colons (pk_str (epk obj)))) v cd"
    and "shared w' = shared w" and "wire w' = wire w"
    and "get_trips w' = get_trips w" and "set_trips w' = set_trips w"
    and "faults w' = faults w"
  using assms
  by (auto simp add: set_polling_one_def Let_def rrd_update_def rrd_create_def makedirs_def
           split: if_splits sum.splits option.splits)


lemma set_polling_loop_cache:
  "set_polling_loop m pre_key pre_path filename batch (cd, w) = Inr (cd', w') \<Longrightarrow>
     cd' = foldl (\<lambda>c ov. AList.update (fmt_s pre_key (strip_colons (pk_str (epk (fst ov))))) (snd ov) c)
                 cd batch
     \<and> shared w' = shared w \<and> wire w' = wire w
     \<and> get_trips w' = get_trips w \<and> set_trips w' = set_trips w \<and> faults w' = faults w"
proof (induction batch arbitrary: cd w)
  case Nil
  then show ?case by simp
next
  case (Cons ov batch)
  obtain obj v where ov: "ov = (obj, v)" by (cases ov)
  from Cons.prems obtain cd1 w1 where
    one: "set_polling_one m pre_key pre_path filename (obj, v) (cd, w) = Inr (cd1, w1)"
    and rest: "set_polling_loop m pre_key pre_path filename batch (cd1, w1) = Inr (cd', w')"
    by (auto simp add: ov split: sum.splits)
  from set_polling_one_cache [OF one] Cons.IH [OF rest]
  show ?case by (simp add: ov)
qed

lemma update_fold_keys:
  "fst ` set (foldl (\<lambda>c ov. AList.update (g (fst ov)) (snd ov) c) cd batch)
     = fst ` set cd \<union> g ` fst ` set batch"
  by (induction batch arbitrary: cd) (auto simp add: dom_update)

lemma set_polling_many_written:
  assumes "set_polling_many m w batch = Inr w'" and "(obj, v) \<in> set batch"
  shows "\<exists>d t. set_trips w' = set_trips w @ [(d, t)]
           \<and> cache_key (pre_key_for m (fst (hd batch))) (epk obj) \<in> fst ` set d
           \<and> shared w' (cache_key (pre_key_for m (fst (hd batch))) (epk obj)) \<noteq> None"
proof -
  from assms(2) obtain first rest where b: "batch = first # rest" by (cases batch) auto
  let ?pk = "pre_key_for m (fst first)"
  let ?pp = "path_join (rrd_root m) [objtype (fst first)]"
  let ?fn = "str_int (mpk m) @ ''.rrd''"
  let ?t = "if cache_timeout m \<noteq> 0 then cache_timeout m else 7 * 86400"
  from assms(1) obtain cd' w1 where
    loop: "set_polling_loop m ?pk ?pp ?fn batch ([], w) = Inr (cd', w1)"
    and w': "w' = cache_set_many w1 cd' ?t"
    by (auto simp add: set_polling_many_def b Let_def split: sum.splits)
  note inv = set_polling_loop_cache [OF loop]
  let ?key = "cache_key ?pk (epk obj)"
  have "fst ` set cd' = (\<lambda>e. fmt_s ?pk (strip_colons (pk_str (epk e)))) ` fst ` set batch"
    using inv update_fold_keys [of "\<lambda>e. fmt_s ?pk (strip_colons (pk_str (epk e)))" "[]" batch]
    by simp
  with assms(2) have k: "?key \<in> fst ` set cd'"
    by (force simp add: cache_key_def)
  then have "?key \<in> fst ` set (map (\<lambda>(k, v). (k, wire w1 v)) cd')"
    by (force simp add: image_iff)
  then have "map_of (map (\<lambda>(k, v). (k, wire w1 v)) cd') ?key \<noteq> None"
    by (simp add: map_of_eq_None_iff)
  then have s: "shared w' ?key \<noteq> None"
    by (auto simp add: w' cache_set_many_def map_add_def split: option.splits)
  have "set_trips w' = set_trips w @ [(cd', ?t)]"
    using inv by (simp add: w' cache_set_many_def)
  with k s show ?thesis by (simp add: b)
qed

text \<open>
  Claim C4. In the loop of \<^verbatim>\<open>set_polling_many\<close>, for a pair whose value is not empty
  and a metric that archives:
  \<^item> when the archive exists and the update is refused with a message that does not
    contain \<^verbatim>\<open>No such file\<close>, the loop goes on with the rest of the batch from a
    world in which only the log has grown, and with the pair's entry in \<^verbatim>\<open>cache_dict\<close>;
  \<^item> when the archive does not exist (and nothing else is wrong), the loop goes on
    from a world in which the directory exists and the archive holds exactly the one
    sample of the retried update;
  \<^item> whenever the batch write returns, its single \<^verbatim>\<open>set_many\<close> carries the key of
    every pair of the batch, the skipped ones included, and the shared cache holds it.
  The code tells a missing archive from another failure by the message alone.
\<close>

theorem set_polling_archive_failures:
  assumes "rrd_enabled m" and "archivable v"
    and "p = path_join pre_path [strip_colons (pk_str (epk obj)), filename]"
    and "key = fmt_s pre_key (strip_colons (pk_str (epk obj)))"
  shows
    "(archives w p = Some a \<and> faults w p = Some msg \<and> \<not> sublist ''No such file'' msg \<longrightarrow>
        set_polling_loop m pre_key pre_path filename ((obj, v) # rest) (cd, w)
          = set_polling_loop m pre_key pre_path filename rest
              (AList.update key v cd,
               w\<lparr>logged := logged w @ [(parameter m, strip_colons (pk_str (epk obj)), msg)]\<rparr>))
     \<and> (archives w p = None \<and> faults w p = None
         \<and> (path_exists w (dirname p) \<longrightarrow> dirname p \<in> dirs w) \<longrightarrow>
        set_polling_loop m pre_key pre_path filename ((obj, v) # rest) (cd, w)
          = set_polling_loop m pre_key pre_path filename rest
              (AList.update key v cd,
               w\<lparr>dirs := insert (dirname p) (dirs w),
                 archives := (archives w)(p \<mapsto> \<lparr>defn = create_args m, samples = [v]\<rparr>)\<rparr>))
     \<and> (\<forall>batch w'. set_polling_many m w batch = Inr w' \<and> (obj, v) \<in> set batch \<longrightarrow>
           (\<exists>d t. set_trips w' = set_trips w @ [(d, t)]
              \<and> cache_key (pre_key_for m (fst (hd batch))) (epk obj) \<in> fst ` set d
              \<and> shared w' (cache_key (pre_key_for m (fst (hd batch))) (epk obj)) \<noteq> None))"
proof (intro conjI impI allI)
  assume "archives w p = Some a \<and> faults w p = Some msg \<and> \<not> sublist ''No such file'' msg"
  with assms show "set_polling_loop m pre_key pre_path filename ((obj, v) # rest) (cd, w)
          = set_polling_loop m pre_key pre_path filename rest
              (AList.update key v cd,
               w\<lparr>logged := logged w @ [(parameter m, strip_colons (pk_str (epk obj)), msg)]\<rparr>)"
    by (simp add: set_polling_one_skipped)
next
  assume "archives w p = None \<and> faults w p = None
         \<and> (path_exists w (dirname p) \<longrightarrow> dirname p \<in> dirs w)"
  with assms show "set_polling_loop m pre_key pre_path filename ((obj, v) # rest) (cd, w)
          = set_polling_loop m pre_key pre_path filename rest
              (AList.update key v cd,
               w\<lparr>dirs := insert (dirname p) (dirs w),
                 archives := (archives w)(p \<mapsto> \<lparr>defn = create_args m, samples = [v]\<rparr>)\<rparr>)"
    by (simp add: set_polling_one_created)
next
  fix batch w'
  assume "set_polling_many m w batch = Inr w' \<and> (obj, v) \<in> set batch"
  then show "\<exists>d t. set_trips w' = set_trips w @ [(d, t)]
              \<and> cache_key (pre_key_for m (fst (hd batch))) (epk obj) \<in> fst ` set d
              \<and> shared w' (cache_key (pre_key_for m (fst (hd batch))) (epk obj)) \<noteq> None"
    using set_polling_many_written by blast
qed

section \<open>Writing, then reading\<close>

lemma polled_hit:
  assumes "obj \<in> set objs" "lcache m (epk obj) = None"
    and "shared w (cache_key (pre_key_for m (hd objs)) (epk obj)) = Some raw"
  shows "lcache (polled_metric rt m w objs f) (epk obj) = Some (to_python rt m raw f)"
proof -
  let ?key = "cache_key (pre_key_for m (hd objs)) (epk obj)"
  from assms have in_keys: "epk obj \<in> snd ` set (wanted_keys m objs)"
    by (auto simp add: wanted_keys_snd)
  then have ne: "wanted_keys m objs \<noteq> []" by auto
  from assms(1,2) have "?key \<in> set (map fst (wanted_keys m objs))"
    by (force simp add: wanted_keys_def)
  then have "(shared w |` set (map fst (wanted_keys m objs))) ?key = Some raw"
    using assms(3) by (simp add: restrict_map_def)
  with fill_cache_value [OF in_keys wanted_keys_fst]
  show ?thesis by (simp add: polled_metric_def ne)
qed

lemma set_polling_shared:
  assumes "set_polling m w obj v = Inr w'"
  shows "shared w' (cache_key (pre_key_for m obj) (epk obj)) = Some (wire w v)"
proof -
  let ?pk = "pre_key_for m obj"
  let ?pp = "path_join (rrd_root m) [objtype obj]"
  let ?fn = "str_int (mpk m) @ ''.rrd''"
  let ?t = "if cache_timeout m \<noteq> 0 then cache_timeout m else 7 * 86400"
  from assms obtain cd' w1 where
    loop: "set_polling_loop m ?pk ?pp ?fn [(obj, v)] ([], w) = Inr (cd', w1)"
    and w': "w' = cache_set_many w1 cd' ?t"
    by (auto simp add: set_polling_def set_polling_many_def Let_def split: sum.splits)
  from set_polling_loop_cache [OF loop]
  have "cd' = [(cache_key ?pk (epk obj), v)]" and "shared w1 = shared w" and "wire w1 = wire w"
    by (simp_all add: cache_key_def)
  then show ?thesis
    by (simp add: w' cache_set_many_def)
qed

text \<open>
  Claim C8. After a write of \<open>v\<close> for an object that returned, reading the latest
  value of that object returns the decoding, for the metric's type, of what the cache
  transport stored for \<open>v\<close>. This holds for every type and every object, whatever the
  local cache held; \<open>set_polling_plain\<close> and the lemmas on \<open>set_polling_one\<close>
  say when the write returns.
\<close>

theorem set_then_get_polling:
  assumes "set_polling m w obj v = Inr w'"
  shows "\<exists>m' w''. get_polling rt m w' obj False strict
                    = Inr (to_python rt m (wire w v) strict, m', w'')"
proof -
  let ?m1 = "m\<lparr>lcache := (lcache m)(epk obj := None)\<rparr>"
  have key: "cache_key (pre_key_for ?m1 obj) (epk obj) = cache_key (pre_key_for m obj) (epk obj)"
    by (simp add: pre_key_for_def)
  have tp: "to_python rt ?m1 (wire w v) strict = to_python rt m (wire w v) strict"
    by (simp add: to_python_def)
  have "lcache (polled_metric rt ?m1 w' [obj] strict) (epk obj)
          = Some (to_python rt ?m1 (wire w v) strict)"
    by (rule polled_hit) (simp_all add: key set_polling_shared [OF assms])
  then have "get_polling rt m w' obj False strict
               = Inr (to_python rt m (wire w v) strict,
                      polled_metric rt ?m1 w' [obj] strict, polled_world ?m1 w' [obj])"
    by (simp add: get_polling_def Let_def get_polling_many_eq tp)
  then show ?thesis by blast
qed

lemma set_polling_plain:
  "\<not> (rrd_enabled m \<and> archivable v) \<Longrightarrow>
   set_polling m w obj v
     = Inr (cache_set_many w [(cache_key (pre_key_for m obj) (epk obj), v)]
              (if cache_timeout m \<noteq> 0 then cache_timeout m else 7 * 86400))"
  by (simp add: set_polling_def set_polling_many_def Let_def set_polling_one_plain cache_key_def)

section \<open>The sample installation at work\<close>

lemma sample_strings:
  "pre_key_for sample_metric (line k) = ''timegraph/line/%s/7''"
  "path_join (rrd_root sample_metric) [objtype (line k)] = ''/var/lib/rrdcached/db/line''"
  "str_int (mpk sample_metric) @ ''.rrd'' = ''7.rrd''"
  by (simp_all add: pre_key_for_def sample_metric_def line_def objtype_def lower_char_def
        path_join_def join2_def str_int_def str_nat.simps digit_char_def)

lemma sample_object_strings:
  "strip_colons (pk_str (epk (line (PkInt 1)))) = ''1''"
  "strip_colons (pk_str (epk (line (PkInt 2)))) = ''2''"
  "strip_colons (pk_str (epk (line (PkInt 3)))) = ''3''"
  by (simp_all add: line_def strip_colons_def str_int_def str_nat.simps digit_char_def)

text \<open>
  In the world of the sample installation where the archive of object 2 refuses
  updates and object 3 has none: the write for object 2 is logged and skipped, the
  write for object 3 creates the directory and the archive and leaves one sample.
\<close>

theorem set_polling_archive_failures_witness:
  "set_polling_loop sample_metric ''timegraph/line/%s/7'' ''/var/lib/rrdcached/db/line'' ''7.rrd''
      [(line (PkInt 2), PFloat 6)] ([], troubled_world)
     = Inr ([(''timegraph/line/2/7'', PFloat 6)],
            troubled_world
              \<lparr>logged := [(''traffic'', ''2'', ''illegal attempt to update using time 1300000000'')]\<rparr>)
   \<and> set_polling_loop sample_metric ''timegraph/line/%s/7'' ''/var/lib/rrdcached/db/line'' ''7.rrd''
      [(line (PkInt 3), PFloat 7)] ([], troubled_world)
     = Inr ([(''timegraph/line/3/7'', PFloat 7)],
            troubled_world
              \<lparr>dirs := insert ''/var/lib/rrdcached/db/line/3'' (dirs troubled_world),
                archives := (archives troubled_world)
                  (''/var/lib/rrdcached/db/line/3/7.rrd''
                     \<mapsto> \<lparr>defn = create_args sample_metric, samples = [PFloat 7]\<rparr>)\<rparr>)"
proof -
  have en: "rrd_enabled sample_metric" by (simp add: sample_metric_def)
  have par: "parameter sample_metric = ''traffic''" by (simp add: sample_metric_def)
  have a6: "archivable (PFloat 6)" and a7: "archivable (PFloat 7)" by (simp_all add: archivable_def)
  have p2: "''/var/lib/rrdcached/db/line/2/7.rrd''
              = path_join ''/var/lib/rrdcached/db/line'' [strip_colons (pk_str (epk (line (PkInt 2)))), ''7.rrd'']"
    and p3: "''/var/lib/rrdcached/db/line/3/7.rrd''
              = path_join ''/var/lib/rrdcached/db/line'' [strip_colons (pk_str (epk (line (PkInt 3)))), ''7.rrd'']"
    by (simp_all add: sample_object_strings path_join_def join2_def)
  have k2: "''timegraph/line/2/7'' = fmt_s ''timegraph/line/%s/7'' (strip_colons (pk_str (epk (line (PkInt 2)))))"
    and k3: "''timegraph/line/3/7'' = fmt_s ''timegraph/line/%s/7'' (strip_colons (pk_str (epk (line (PkInt 3)))))"
    by (simp_all add: sample_object_strings)
  have f2: "archives troubled_world ''/var/lib/rrdcached/db/line/2/7.rrd''
              = Some \<lparr>defn = create_args sample_metric, samples = []\<rparr>
            \<and> faults troubled_world ''/var/lib/rrdcached/db/line/2/7.rrd''
              = Some ''illegal attempt to update using time 1300000000''
            \<and> \<not> sublist ''No such file'' ''illegal attempt to update using time 1300000000''"
    by (simp add: troubled_world_def sample_world_def) code_simp
  have d3: "dirname ''/var/lib/rrdcached/db/line/3/7.rrd'' = ''/var/lib/rrdcached/db/line/3''"
    by (simp add: dirname_def)
  have f3: "archives troubled_world ''/var/lib/rrdcached/db/line/3/7.rrd'' = None
            \<and> faults troubled_world ''/var/lib/rrdcached/db/line/3/7.rrd'' = None
            \<and> (path_exists troubled_world (dirname ''/var/lib/rrdcached/db/line/3/7.rrd'')
                 \<longrightarrow> dirname ''/var/lib/rrdcached/db/line/3/7.rrd'' \<in> dirs troubled_world)"
    by (simp add: d3 troubled_world_def sample_world_def path_exists_def)
  from set_polling_archive_failures [OF en a6 p2 k2, of troubled_world _ _ "[]" "[]",
         THEN conjunct1, THEN mp, OF f2]
  have s2: "set_polling_loop sample_metric ''timegraph/line/%s/7'' ''/var/lib/rrdcached/db/line'' ''7.rrd''
      [(line (PkInt 2), PFloat 6)] ([], troubled_world)
     = Inr ([(''timegraph/line/2/7'', PFloat 6)],
            troubled_world
              \<lparr>logged := [(''traffic'', ''2'', ''illegal attempt to update using time 1300000000'')]\<rparr>)"
    by (simp add: par sample_object_strings troubled_world_def sample_world_def)
  from set_polling_archive_failures [OF en a7 p3 k3, of troubled_world _ _ "[]" "[]",
         THEN conjunct2, THEN conjunct1, THEN mp, OF f3]
  have s3: "set_polling_loop sample_metric ''timegraph/line/%s/7'' ''/var/lib/rrdcached/db/line'' ''7.rrd''
      [(line (PkInt 3), PFloat 7)] ([], troubled_world)
     = Inr ([(''timegraph/line/3/7'', PFloat 7)],
            troubled_world
              \<lparr>dirs := insert ''/var/lib/rrdcached/db/line/3'' (dirs troubled_world),
                archives := (archives troubled_world)
                  (''/var/lib/rrdcached/db/line/3/7.rrd''
                     \<mapsto> \<lparr>defn = create_args sample_metric, samples = [PFloat 7]\<rparr>)\<rparr>)"
    by (simp add: d3)
  from s2 s3 show ?thesis by (rule conjI)
qed


lemma sample_fields:
  "rrd_enabled sample_metric" "parameter sample_metric = ''traffic''"
  "cache_timeout sample_metric = 0" "mtype sample_metric = ''float''"
  "queue_size sample_metric = 3000" "queue sample_metric = []"
  by (simp_all add: sample_metric_def)

lemma set_polling_sample:
  "set_polling sample_metric troubled_world (line (PkInt 1)) (PStr ''12.5'')
     = Inr (cache_set_many
              (troubled_world
                 \<lparr>archives := (archives troubled_world)
                    (''/var/lib/rrdcached/db/line/1/7.rrd''
                       \<mapsto> \<lparr>defn = create_args sample_metric, samples = [PFloat 4, PStr ''12.5'']\<rparr>)\<rparr>)
              [(''timegraph/line/1/7'', PStr ''12.5'')] 604800)"
proof -
  have p1: "path_join ''/var/lib/rrdcached/db/line'' [strip_colons (pk_str (epk (line (PkInt 1)))), ''7.rrd'']
              = ''/var/lib/rrdcached/db/line/1/7.rrd''"
    by (simp add: sample_object_strings path_join_def join2_def)
  have k1: "fmt_s ''timegraph/line/%s/7'' (strip_colons (pk_str (epk (line (PkInt 1)))))
              = ''timegraph/line/1/7''"
    by (simp add: sample_object_strings)
  have ar: "archivable (PStr ''12.5'')" by (simp add: archivable_def)
  have a1: "archives troubled_world
              (path_join ''/var/lib/rrdcached/db/line'' [strip_colons (pk_str (epk (line (PkInt 1)))), ''7.rrd''])
            = Some \<lparr>defn = create_args sample_metric, samples = [PFloat 4]\<rparr>"
    and f1: "faults troubled_world
              (path_join ''/var/lib/rrdcached/db/line'' [strip_colons (pk_str (epk (line (PkInt 1)))), ''7.rrd''])
            = None"
    by (simp_all add: p1 troubled_world_def sample_world_def)
  have one: "set_polling_one sample_metric ''timegraph/line/%s/7'' ''/var/lib/rrdcached/db/line'' ''7.rrd''
               (line (PkInt 1), PStr ''12.5'') ([], troubled_world)
             = Inr ([(''timegraph/line/1/7'', PStr ''12.5'')],
                    troubled_world
                      \<lparr>archives := (archives troubled_world)
                         (''/var/lib/rrdcached/db/line/1/7.rrd''
                            \<mapsto> \<lparr>defn = create_args sample_metric, samples = [PFloat 4, PStr ''12.5'']\<rparr>)\<rparr>)"
    using set_polling_one_appended [OF sample_fields(1) ar a1 f1, of "''timegraph/line/%s/7''" "[]"]
    by (simp add: sample_object_strings path_join_def join2_def)
  show ?thesis
    by (simp add: set_polling_def set_polling_many_def Let_def sample_strings one sample_fields)
qed

text \<open>
  The text \<^verbatim>\<open>12.5\<close> written for object 1 is read back as the float 12.5.
\<close>

theorem set_then_get_polling_witness:
  "set_polling sample_metric troubled_world (line (PkInt 1)) (PStr ''12.5'')
     = Inr (cache_set_many
              (troubled_world
                 \<lparr>archives := (archives troubled_world)
                    (''/var/lib/rrdcached/db/line/1/7.rrd''
                       \<mapsto> \<lparr>defn = create_args sample_metric, samples = [PFloat 4, PStr ''12.5'']\<rparr>)\<rparr>)
              [(''timegraph/line/1/7'', PStr ''12.5'')] 604800)
   \<and> (\<exists>m' w''.
         get_polling sample_rt sample_metric
           (cache_set_many
              (troubled_world
                 \<lparr>archives := (archives troubled_world)
                    (''/var/lib/rrdcached/db/line/1/7.rrd''
                       \<mapsto> \<lparr>defn = create_args sample_metric, samples = [PFloat 4, PStr ''12.5'']\<rparr>)\<rparr>)
              [(''timegraph/line/1/7'', PStr ''12.5'')] 604800)
           (line (PkInt 1)) False True
         = Inr (PFloat (25 / 2), m', w''))"
proof -
  have tp: "to_python sample_rt sample_metric (wire troubled_world (PStr ''12.5'')) True = PFloat (25 / 2)"
    by (simp add: to_python_def sample_fields sample_rt_def rrd_number_def digit_val_def
                  troubled_world_def sample_world_def)
  from set_then_get_polling [OF set_polling_sample, of sample_rt True]
  show ?thesis
    by (simp add: tp set_polling_sample)
qed

section \<open>The write queue: the flush at the capacity\<close>

lemma set_polling_one_queue:
  "set_polling_one (m\<lparr>queue := q\<rparr>) pre_key pre_path filename ov st
     = set_polling_one m pre_key pre_path filename ov st"
  by (simp add: set_polling_one_def create_args_def Let_def cong: sum.case_cong if_cong)

lemma set_polling_loop_queue:
  "set_polling_loop (m\<lparr>queue := q\<rparr>) pre_key pre_path filename batch st
     = set_polling_loop m pre_key pre_path filename batch st"
  by (induction batch arbitrary: st) (simp_all add: set_polling_one_queue cong: sum.case_cong)

lemma set_polling_many_queue:
  "set_polling_many (m\<lparr>queue := q\<rparr>) w batch = set_polling_many m w batch"
  by (simp add: set_polling_many_def set_polling_loop_queue pre_key_for_def Let_def del: set_polling_loop.simps split: list.splits sum.splits prod.splits)

lemma enqueue_all_append:
  "enqueue_all m w (xs @ ys)
     = (case enqueue_all m w xs of Inl e \<Rightarrow> Inl e | Inr (m', w') \<Rightarrow> enqueue_all m' w' ys)"
  by (induction xs arbitrary: m w) (auto split: sum.splits)

lemma enqueue_all_below:
  "int (length (queue m) + length items) \<le> queue_size m \<Longrightarrow>
   enqueue_all m w items = Inr (m\<lparr>queue := queue m @ items\<rparr>, w)"
proof (induction items arbitrary: m)
  case Nil
  then show ?case by simp
next
  case (Cons ov items)
  obtain obj v where ov: "ov = (obj, v)" by (cases ov)
  let ?m1 = "m\<lparr>queue := queue m @ [(obj, v)]\<rparr>"
  from Cons.prems have a: "queue_append m w obj v = Inr (?m1, w)"
    by (simp add: queue_append_def Let_def)
  from Cons.prems have "int (length (queue ?m1) + length items) \<le> queue_size ?m1"
    by simp
  from Cons.IH [OF this] a show ?case
    by (simp add: ov)
qed

lemma queue_append_full:
  "int (length (queue m)) \<ge> queue_size m \<Longrightarrow>
   queue_append m w obj v
     = (case set_polling_many m w (queue m @ [(obj, v)]) of
          Inl e \<Rightarrow> Inl e
        | Inr w' \<Rightarrow> Inr (m\<lparr>queue := []\<rparr>, w'))"
  by (simp add: queue_append_def Let_def dump_queue_def set_polling_many_queue split: sum.splits)


lemma set_polling_loop_plain:
  "\<not> rrd_enabled m \<Longrightarrow>
   \<exists>st'. set_polling_loop m pre_key pre_path filename batch st = Inr st'"
proof (induction batch arbitrary: st)
  case Nil
  then show ?case by simp
next
  case (Cons ov batch)
  obtain obj v where ov: "ov = (obj, v)" by (cases ov)
  obtain cd w where st: "st = (cd, w)" by (cases st)
  from Cons.prems have "set_polling_one m pre_key pre_path filename (obj, v) (cd, w)
          = Inr (AList.update (fmt_s pre_key (strip_colons (pk_str (epk obj)))) v cd, w)"
    by (simp add: set_polling_one_plain)
  with Cons.IH [OF Cons.prems] show ?case
    by (simp add: ov st)
qed

lemma set_polling_many_plain:
  "\<not> rrd_enabled m \<Longrightarrow> \<exists>w'. set_polling_many m w batch = Inr w'"
proof (cases batch)
  case Nil
  then show ?thesis by (simp add: set_polling_many_def)
next
  case (Cons first rest)
  assume "\<not> rrd_enabled m"
  from set_polling_loop_plain [OF this]
  obtain st' where "set_polling_loop m (pre_key_for m (fst first))
                      (path_join (rrd_root m) [objtype (fst first)])
                      (str_int (mpk m) @ ''.rrd'') batch ([], w) = Inr st'"
    by blast
  then show ?thesis
    by (cases st') (simp add: set_polling_many_def Cons Let_def)
qed

text \<open>
  Claim C5, amended. Into an empty queue, as many pairs as \<^verbatim>\<open>queue_size\<close> are
  enqueued without any write. The next \<^verbatim>\<open>queue_append\<close> hands the whole queue,
  \<^verbatim>\<open>queue_size + 1\<close> pairs, to one call of \<^verbatim>\<open>set_polling_many\<close> before it
  returns; when that call returns, it has made exactly one \<^verbatim>\<open>set_many\<close> round trip
  and the queue is empty, and when it raises, so does the enqueue. Without archiving
  the call always returns.
\<close>

theorem queue_flush_boundary:
  assumes "queue m = []" and "int (length items) = queue_size m"
  shows "enqueue_all m w items = Inr (m\<lparr>queue := items\<rparr>, w)
     \<and> enqueue_all m w (items @ [(obj, v)])
         = (case set_polling_many m w (items @ [(obj, v)]) of
              Inl e \<Rightarrow> Inl e
            | Inr w' \<Rightarrow> Inr (m\<lparr>queue := []\<rparr>, w'))
     \<and> int (length (items @ [(obj, v)])) = queue_size m + 1
     \<and> (\<forall>w'. set_polling_many m w (items @ [(obj, v)]) = Inr w'
              \<longrightarrow> (\<exists>d t. set_trips w' = set_trips w @ [(d, t)]))
     \<and> (\<not> rrd_enabled m \<longrightarrow> (\<exists>w'. set_polling_many m w (items @ [(obj, v)]) = Inr w'))"
proof (intro conjI allI impI)
  from assms(2) show "int (length (items @ [(obj, v)])) = queue_size m + 1" by simp
next
  from assms have "int (length (queue m) + length items) \<le> queue_size m" by simp
  from enqueue_all_below [OF this] assms(1)
  show first: "enqueue_all m w items = Inr (m\<lparr>queue := items\<rparr>, w)" by simp
  let ?m1 = "m\<lparr>queue := items\<rparr>"
  from assms(2) have "int (length (queue ?m1)) \<ge> queue_size ?m1" by simp
  from queue_append_full [OF this]
  have "queue_append ?m1 w obj v
          = (case set_polling_many m w (items @ [(obj, v)]) of
               Inl e \<Rightarrow> Inl e
             | Inr w' \<Rightarrow> Inr (m\<lparr>queue := []\<rparr>, w'))"
    by (simp add: set_polling_many_queue cong: sum.case_cong)
  then show "enqueue_all m w (items @ [(obj, v)])
         = (case set_polling_many m w (items @ [(obj, v)]) of
              Inl e \<Rightarrow> Inl e
            | Inr w' \<Rightarrow> Inr (m\<lparr>queue := []\<rparr>, w'))"
    by (simp add: enqueue_all_append first split: sum.splits)
next
  fix w'
  assume "set_polling_many m w (items @ [(obj, v)]) = Inr w'"
  from set_polling_many_written [OF this, of obj v]
  show "\<exists>d t. set_trips w' = set_trips w @ [(d, t)]" by auto
next
  assume "\<not> rrd_enabled m"
  then show "\<exists>w'. set_polling_many m w (items @ [(obj, v)]) = Inr w'"
    by (rule set_polling_many_plain)
qed

lemma small_fields:
  "\<not> rrd_enabled small_queue_metric" "queue_size small_queue_metric = 2"
  "queue small_queue_metric = []" "cache_timeout small_queue_metric = 0"
  by (simp_all add: small_queue_metric_def sample_metric_def)

lemma small_strings:
  "pre_key_for small_queue_metric (line k) = ''timegraph/line/%s/7''"
  by (simp add: pre_key_for_def small_queue_metric_def sample_metric_def line_def objtype_def
        lower_char_def str_int_def str_nat.simps digit_char_def)

lemma small_queue_flush:
  "set_polling_many small_queue_metric sample_world
     [(line (PkInt 1), PFloat 1), (line (PkInt 2), PFloat 2), (line (PkInt 3), PFloat 3)]
   = Inr (cache_set_many sample_world
            [(''timegraph/line/1/7'', PFloat 1), (''timegraph/line/2/7'', PFloat 2),
             (''timegraph/line/3/7'', PFloat 3)] 604800)"
  by (simp add: set_polling_many_def Let_def small_strings small_fields set_polling_one_plain
        sample_object_strings)

text \<open>
  Claim C5 as stated fails: with a capacity of 2, the third enqueue flushes three
  pairs, not two.
\<close>

theorem queue_flush_size_counterexample:
  "queue_size small_queue_metric = 2
   \<and> enqueue_all small_queue_metric sample_world
        [(line (PkInt 1), PFloat 1), (line (PkInt 2), PFloat 2), (line (PkInt 3), PFloat 3)]
      = Inr (small_queue_metric,
             cache_set_many sample_world
               [(''timegraph/line/1/7'', PFloat 1), (''timegraph/line/2/7'', PFloat 2),
                (''timegraph/line/3/7'', PFloat 3)] 604800)
   \<and> set_trips (cache_set_many sample_world
               [(''timegraph/line/1/7'', PFloat 1), (''timegraph/line/2/7'', PFloat 2),
                (''timegraph/line/3/7'', PFloat 3)] 604800)
      = [([(''timegraph/line/1/7'', PFloat 1), (''timegraph/line/2/7'', PFloat 2),
           (''timegraph/line/3/7'', PFloat 3)], 604800)]"
proof -
  have q: "small_queue_metric\<lparr>queue := []\<rparr> = small_queue_metric"
    by (simp add: small_queue_metric_def sample_metric_def)
  have "enqueue_all small_queue_metric sample_world
        [(line (PkInt 1), PFloat 1), (line (PkInt 2), PFloat 2), (line (PkInt 3), PFloat 3)]
      = Inr (small_queue_metric,
             cache_set_many sample_world
               [(''timegraph/line/1/7'', PFloat 1), (''timegraph/line/2/7'', PFloat 2),
                (''timegraph/line/3/7'', PFloat 3)] 604800)"
    by (simp add: queue_append_def dump_queue_def Let_def small_fields set_polling_many_queue
          small_queue_flush q)
  then show ?thesis
    by (simp add: small_fields cache_set_many_def sample_world_def)
qed

text \<open>
  The same three pairs with a capacity of 2, and the default capacity of 3000: no
  write during the first 3000 enqueues, one batch write of 3001 pairs at the next.
\<close>

theorem queue_flush_boundary_witness:
  "queue small_queue_metric = []
   \<and> int (length [(line (PkInt 1), PFloat 1), (line (PkInt 2), PFloat 2)]) = queue_size small_queue_metric
   \<and> enqueue_all small_queue_metric sample_world [(line (PkInt 1), PFloat 1), (line (PkInt 2), PFloat 2)]
      = Inr (small_queue_metric\<lparr>queue := [(line (PkInt 1), PFloat 1), (line (PkInt 2), PFloat 2)]\<rparr>,
             sample_world)
   \<and> enqueue_all small_queue_metric sample_world
        ([(line (PkInt 1), PFloat 1), (line (PkInt 2), PFloat 2)] @ [(line (PkInt 3), PFloat 3)])
      = Inr (small_queue_metric\<lparr>queue := []\<rparr>,
             cache_set_many sample_world
               [(''timegraph/line/1/7'', PFloat 1), (''timegraph/line/2/7'', PFloat 2),
                (''timegraph/line/3/7'', PFloat 3)] 604800)
   \<and> queue_size sample_metric = 3000
   \<and> enqueue_all sample_metric sample_world (replicate 3000 (line (PkInt 1), PFloat 1))
      = Inr (sample_metric\<lparr>queue := replicate 3000 (line (PkInt 1), PFloat 1)\<rparr>, sample_world)
   \<and> enqueue_all sample_metric sample_world
        (replicate 3000 (line (PkInt 1), PFloat 1) @ [(line (PkInt 1), PFloat 1)])
      = (case set_polling_many sample_metric sample_world
                (replicate 3000 (line (PkInt 1), PFloat 1) @ [(line (PkInt 1), PFloat 1)]) of
           Inl e \<Rightarrow> Inl e
         | Inr w' \<Rightarrow> Inr (sample_metric\<lparr>queue := []\<rparr>, w'))"
proof -
  have h1: "queue small_queue_metric = []" by (rule small_fields)
  have h2: "int (length [(line (PkInt 1), PFloat 1), (line (PkInt 2), PFloat 2)])
              = queue_size small_queue_metric"
    by (simp add: small_fields)
  have g1: "queue sample_metric = []" by (rule sample_fields)
  have g2: "int (length (replicate 3000 (line (PkInt 1), PFloat 1))) = queue_size sample_metric"
    by (simp add: sample_fields)
  note small = queue_flush_boundary [OF h1 h2, of sample_world "line (PkInt 3)" "PFloat 3"]
  note large = queue_flush_boundary [OF g1 g2, of sample_world "line (PkInt 1)" "PFloat 1"]
  from small have s1: "enqueue_all small_queue_metric sample_world
                         [(line (PkInt 1), PFloat 1), (line (PkInt 2), PFloat 2)]
      = Inr (small_queue_metric\<lparr>queue := [(line (PkInt 1), PFloat 1), (line (PkInt 2), PFloat 2)]\<rparr>,
             sample_world)"
    by (rule conjunct1)
  from small [THEN conjunct2, THEN conjunct1]
  have s2: "enqueue_all small_queue_metric sample_world
        ([(line (PkInt 1), PFloat 1), (line (PkInt 2), PFloat 2)] @ [(line (PkInt 3), PFloat 3)])
      = Inr (small_queue_metric\<lparr>queue := []\<rparr>,
             cache_set_many sample_world
               [(''timegraph/line/1/7'', PFloat 1), (''timegraph/line/2/7'', PFloat 2),
                (''timegraph/line/3/7'', PFloat 3)] 604800)"
    by (simp add: small_queue_flush)
  note l1 = large [THEN conjunct1]
  note l2 = large [THEN conjunct2, THEN conjunct1]
  from h1 h2 s1 s2 sample_fields(5) l1 l2 show ?thesis by (intro conjI)
qed

section \<open>The write queue: repeated objects\<close>

lemma map_of_wired_update:
  "map_of (map (\<lambda>(k, v). (k, f v)) (AList.update k v al))
     = (map_of (map (\<lambda>(k, v). (k, f v)) al))(k \<mapsto> f v)"
  by (induction al) (auto simp add: fun_eq_iff)

lemma map_of_wired_fold:
  "map_of (map (\<lambda>(k, v). (k, f v))
             (foldl (\<lambda>c ov. AList.update (g (fst ov)) (snd ov) c) cd batch))
     = foldl (\<lambda>s ov. s(g (fst ov) \<mapsto> f (snd ov))) (map_of (map (\<lambda>(k, v). (k, f v)) cd)) batch"
  by (induction batch arbitrary: cd) (simp_all add: map_of_wired_update)

lemma map_add_fold:
  "s ++ foldl (\<lambda>s ov. s(g (fst ov) \<mapsto> f (snd ov))) t batch
     = foldl (\<lambda>s ov. s(g (fst ov) \<mapsto> f (snd ov))) (s ++ t) batch"
  by (induction batch arbitrary: t) simp_all

lemma update_fold_distinct:
  "distinct (map fst cd) \<Longrightarrow>
   distinct (map fst (foldl (\<lambda>c ov. AList.update (g (fst ov)) (snd ov) c) cd batch))"
  by (induction batch arbitrary: cd) (simp_all add: distinct_update)

lemma set_polling_one_samples:
  assumes "set_polling_one m pre_key pre_path filename (obj, v) (cd, w) = Inr (cd', w')"
    and "faults w q = None"
  shows "samples_of w' q
           = samples_of w q
             @ (if rrd_enabled m \<and> archivable v
                   \<and> path_join pre_path [strip_colons (pk_str (epk obj)), filename] = q
                then [v] else [])"
  using assms
  by (auto simp add: set_polling_one_def Let_def rrd_update_def rrd_create_def makedirs_def
        samples_of_def missing_message
      split: if_splits sum.splits option.splits)

lemma set_polling_loop_samples:
  "set_polling_loop m pre_key pre_path filename batch (cd, w) = Inr (cd', w') \<Longrightarrow>
   faults w q = None \<Longrightarrow>
   samples_of w' q
     = samples_of w q
       @ map snd (filter (\<lambda>ov. rrd_enabled m \<and> archivable (snd ov)
                    \<and> path_join pre_path [strip_colons (pk_str (epk (fst ov))), filename] = q)
                  batch)"
proof (induction batch arbitrary: cd w)
  case Nil
  then show ?case by simp
next
  case (Cons ov batch)
  obtain obj v where ov: "ov = (obj, v)" by (cases ov)
  from Cons.prems(1) obtain cd1 w1 where
    one: "set_polling_one m pre_key pre_path filename (obj, v) (cd, w) = Inr (cd1, w1)"
    and rest: "set_polling_loop m pre_key pre_path filename batch (cd1, w1) = Inr (cd', w')"
    by (auto simp add: ov split: sum.splits)
  from set_polling_one_cache(6) [OF one] Cons.prems(2) have f1: "faults w1 q = None" by simp
  from set_polling_one_samples [OF one Cons.prems(2)] Cons.IH [OF rest f1]
  show ?case by (simp add: ov)
qed


lemma set_polling_many_effect:
  assumes "set_polling_many m w batch = Inr w'"
  shows "(shared w'
           = foldl (\<lambda>s ov. s(cache_key (pre_key_for m (fst (hd batch))) (epk (fst ov))
                              \<mapsto> wire w (snd ov)))
                   (shared w) batch)
     \<and> (batch \<noteq> [] \<longrightarrow> (\<exists>d t. set_trips w' = set_trips w @ [(d, t)] \<and> distinct (map fst d)))
     \<and> (\<forall>q. faults w q = None \<longrightarrow>
         samples_of w' q
           = samples_of w q
             @ map snd (filter (\<lambda>ov. rrd_enabled m \<and> archivable (snd ov)
                          \<and> path_join (path_join (rrd_root m) [objtype (fst (hd batch))])
                                [strip_colons (pk_str (epk (fst ov))), str_int (mpk m) @ ''.rrd''] = q)
                        batch))"
proof (cases batch)
  case Nil
  with assms have "w' = w" by (simp add: set_polling_many_def)
  then show ?thesis by (simp add: Nil)
next
  case (Cons first rest)
  let ?pk = "pre_key_for m (fst (hd batch))"
  let ?pp = "path_join (rrd_root m) [objtype (fst (hd batch))]"
  let ?fn = "str_int (mpk m) @ ''.rrd''"
  let ?t = "if cache_timeout m \<noteq> 0 then cache_timeout m else 7 * 86400"
  from assms obtain cd' w1 where
    loop: "set_polling_loop m ?pk ?pp ?fn batch ([], w) = Inr (cd', w1)"
    and w': "w' = cache_set_many w1 cd' ?t"
    by (auto simp add: set_polling_many_def Cons Let_def split: sum.splits)
  note inv = set_polling_loop_cache [OF loop]
  let ?g = "\<lambda>e. fmt_s ?pk (strip_colons (pk_str (epk e)))"
  from inv have cd': "cd' = foldl (\<lambda>c ov. AList.update (?g (fst ov)) (snd ov) c) [] batch"
    by simp
  have "shared w' = shared w ++ map_of (map (\<lambda>(k, v). (k, wire w v)) cd')"
    using inv by (simp add: w' cache_set_many_def)
  also have "\<dots> = foldl (\<lambda>s ov. s(?g (fst ov) \<mapsto> wire w (snd ov))) (shared w) batch"
    by (simp add: cd' map_of_wired_fold [of "wire w" ?g] map_add_fold [of _ ?g "wire w"])
  finally have A: "shared w'
           = foldl (\<lambda>s ov. s(cache_key (pre_key_for m (fst (hd batch))) (epk (fst ov))
                              \<mapsto> wire w (snd ov)))
                   (shared w) batch"
    by (simp add: cache_key_def)
  have "distinct (map fst cd')"
    unfolding cd' by (rule update_fold_distinct) simp
  moreover have "set_trips w' = set_trips w @ [(cd', ?t)]"
    using inv by (simp add: w' cache_set_many_def)
  ultimately have B: "batch \<noteq> [] \<longrightarrow> (\<exists>d t. set_trips w' = set_trips w @ [(d, t)] \<and> distinct (map fst d))"
    by blast
  have "\<And>q. samples_of w' q = samples_of w1 q"
    by (simp add: w' cache_set_many_def samples_of_def)
  with set_polling_loop_samples [OF loop]
  have C: "\<forall>q. faults w q = None \<longrightarrow>
         samples_of w' q
           = samples_of w q
             @ map snd (filter (\<lambda>ov. rrd_enabled m \<and> archivable (snd ov)
                          \<and> path_join (path_join (rrd_root m) [objtype (fst (hd batch))])
                                [strip_colons (pk_str (epk (fst ov))), str_int (mpk m) @ ''.rrd''] = q)
                        batch)"
    by simp
  show ?thesis
    by (rule conjI [OF A conjI [OF B C]])
qed

text \<open>
  Claim C9, amended. Below the capacity, enqueueing keeps every pair, in order and
  with repetitions. When the flush of that queue returns:
  \<^item> the queue is empty;
  \<^item> the shared cache holds what writing every pair in enqueue order would have left,
    that is the last value of every key;
  \<^item> this was done by one \<^verbatim>\<open>set_many\<close> whose payload has one entry per key, so a
    repeated object reaches the shared cache once;
  \<^item> every archive that is not faulty has received, in enqueue order, the non-empty
    values of the pairs that map to it, when the metric archives.
\<close>

theorem queue_keeps_every_pair:
  assumes "queue m = []" and "int (length items) \<le> queue_size m"
  shows "enqueue_all m w items = Inr (m\<lparr>queue := items\<rparr>, w)
     \<and> (\<forall>m' w'. dump_queue (m\<lparr>queue := items\<rparr>) w = Inr (m', w') \<longrightarrow>
           queue m' = []
         \<and> shared w'
             = foldl (\<lambda>s ov. s(cache_key (pre_key_for m (fst (hd items))) (epk (fst ov))
                                \<mapsto> wire w (snd ov)))
                     (shared w) items
         \<and> (items \<noteq> [] \<longrightarrow> (\<exists>d t. set_trips w' = set_trips w @ [(d, t)] \<and> distinct (map fst d)))
         \<and> (\<forall>q. faults w q = None \<longrightarrow>
               samples_of w' q
                 = samples_of w q
                   @ map snd (filter (\<lambda>ov. rrd_enabled m \<and> archivable (snd ov)
                                \<and> path_join (path_join (rrd_root m) [objtype (fst (hd items))])
                                      [strip_colons (pk_str (epk (fst ov))), str_int (mpk m) @ ''.rrd'']
                                    = q)
                              items)))"
proof (intro conjI allI impI)
  from assms have "int (length (queue m) + length items) \<le> queue_size m" by simp
  from enqueue_all_below [OF this] assms(1)
  show "enqueue_all m w items = Inr (m\<lparr>queue := items\<rparr>, w)" by simp
next
  fix m' w'
  assume d: "dump_queue (m\<lparr>queue := items\<rparr>) w = Inr (m', w')"
  then have s: "set_polling_many m w items = Inr w'" and m': "m' = m\<lparr>queue := []\<rparr>"
    by (auto simp add: dump_queue_def set_polling_many_queue split: sum.splits)
  from m' show "queue m' = []" by simp
  note e = set_polling_many_effect [OF s]
  from e show "shared w'
             = foldl (\<lambda>s ov. s(cache_key (pre_key_for m (fst (hd items))) (epk (fst ov))
                                \<mapsto> wire w (snd ov)))
                     (shared w) items"
    by (rule conjunct1)
  { assume "items \<noteq> []"
    with e show "\<exists>d t. set_trips w' = set_trips w @ [(d, t)] \<and> distinct (map fst d)"
      by (elim conjE) (rule mp) }
  { fix q assume "faults w q = None"
    with e show "samples_of w' q
                 = samples_of w q
                   @ map snd (filter (\<lambda>ov. rrd_enabled m \<and> archivable (snd ov)
                                \<and> path_join (path_join (rrd_root m) [objtype (fst (hd items))])
                                      [strip_colons (pk_str (epk (fst ov))), str_int (mpk m) @ ''.rrd'']
                                    = q)
                              items)"
      by (elim conjE) (erule allE [of _ q], rule mp) }
qed

text \<open>
  Claim C9 as stated fails for the shared cache: two pairs enqueued for the same
  object leave the queue as one entry of one \<^verbatim>\<open>set_many\<close>; the first value is
  never written to the shared cache.
\<close>

theorem queue_cache_dedup_counterexample:
  "enqueue_all small_queue_metric sample_world
       [(line (PkInt 1), PFloat 1), (line (PkInt 1), PFloat 2)]
     = Inr (small_queue_metric\<lparr>queue := [(line (PkInt 1), PFloat 1), (line (PkInt 1), PFloat 2)]\<rparr>,
            sample_world)
   \<and> dump_queue
       (small_queue_metric\<lparr>queue := [(line (PkInt 1), PFloat 1), (line (PkInt 1), PFloat 2)]\<rparr>)
       sample_world
     = Inr (small_queue_metric\<lparr>queue := []\<rparr>,
            cache_set_many sample_world [(''timegraph/line/1/7'', PFloat 2)] 604800)
   \<and> set_trips (cache_set_many sample_world [(''timegraph/line/1/7'', PFloat 2)] 604800)
     = [([(''timegraph/line/1/7'', PFloat 2)], 604800)]"
proof -
  have e: "enqueue_all small_queue_metric sample_world
       [(line (PkInt 1), PFloat 1), (line (PkInt 1), PFloat 2)]
     = Inr (small_queue_metric\<lparr>queue := [(line (PkInt 1), PFloat 1), (line (PkInt 1), PFloat 2)]\<rparr>,
            sample_world)"
    by (simp add: queue_append_def Let_def small_fields)
  have s: "set_polling_many small_queue_metric sample_world
             [(line (PkInt 1), PFloat 1), (line (PkInt 1), PFloat 2)]
           = Inr (cache_set_many sample_world [(''timegraph/line/1/7'', PFloat 2)] 604800)"
    by (simp add: set_polling_many_def Let_def small_strings small_fields set_polling_one_plain
          sample_object_strings)
  have d: "dump_queue
       (small_queue_metric\<lparr>queue := [(line (PkInt 1), PFloat 1), (line (PkInt 1), PFloat 2)]\<rparr>)
       sample_world
     = Inr (small_queue_metric\<lparr>queue := []\<rparr>,
            cache_set_many sample_world [(''timegraph/line/1/7'', PFloat 2)] 604800)"
    by (simp add: dump_queue_def set_polling_many_queue s)
  have t: "set_trips (cache_set_many sample_world [(''timegraph/line/1/7'', PFloat 2)] 604800)
     = [([(''timegraph/line/1/7'', PFloat 2)], 604800)]"
    by (simp add: cache_set_many_def sample_world_def)
  from e d t show ?thesis by (intro conjI)
qed


lemma sample_double_write:
  "set_polling_many sample_metric troubled_world
       [(line (PkInt 1), PFloat 5), (line (PkInt 1), PFloat 6)]
     = Inr (cache_set_many
              (troubled_world
                 \<lparr>archives := (archives troubled_world)
                    (''/var/lib/rrdcached/db/line/1/7.rrd''
                       \<mapsto> \<lparr>defn = create_args sample_metric,
                            samples = [PFloat 4, PFloat 5, PFloat 6]\<rparr>)\<rparr>)
              [(''timegraph/line/1/7'', PFloat 6)] 604800)"
proof -
  have p1: "path_join ''/var/lib/rrdcached/db/line'' [''1'', ''7.rrd'']
              = ''/var/lib/rrdcached/db/line/1/7.rrd''"
    by (simp add: path_join_def join2_def)
  have a: "archives troubled_world ''/var/lib/rrdcached/db/line/1/7.rrd''
             = Some \<lparr>defn = create_args sample_metric, samples = [PFloat 4]\<rparr>"
    and f: "faults troubled_world ''/var/lib/rrdcached/db/line/1/7.rrd'' = None"
    by (simp_all add: troubled_world_def sample_world_def)
  show ?thesis
    by (simp add: set_polling_many_def Let_def sample_strings sample_fields set_polling_one_def
          sample_object_strings archivable_def p1 rrd_update_def a f)
qed

text \<open>
  Two values for object 1 of the sample installation: both reach its archive, in
  order, and the second is the one in the shared cache.
\<close>

theorem queue_keeps_every_pair_witness:
  "queue sample_metric = []
   \<and> int (length [(line (PkInt 1), PFloat 5), (line (PkInt 1), PFloat 6)]) \<le> queue_size sample_metric
   \<and> enqueue_all sample_metric troubled_world [(line (PkInt 1), PFloat 5), (line (PkInt 1), PFloat 6)]
       = Inr (sample_metric\<lparr>queue := [(line (PkInt 1), PFloat 5), (line (PkInt 1), PFloat 6)]\<rparr>,
              troubled_world)
   \<and> (\<exists>m' w'.
         dump_queue (sample_metric\<lparr>queue := [(line (PkInt 1), PFloat 5), (line (PkInt 1), PFloat 6)]\<rparr>)
           troubled_world = Inr (m', w')
         \<and> queue m' = []
         \<and> shared w' ''timegraph/line/1/7'' = Some (PFloat 6)
         \<and> samples_of w' ''/var/lib/rrdcached/db/line/1/7.rrd'' = [PFloat 4, PFloat 5, PFloat 6])"
proof -
  let ?items = "[(line (PkInt 1), PFloat 5), (line (PkInt 1), PFloat 6)]"
  let ?w' = "cache_set_many
              (troubled_world
                 \<lparr>archives := (archives troubled_world)
                    (''/var/lib/rrdcached/db/line/1/7.rrd''
                       \<mapsto> \<lparr>defn = create_args sample_metric,
                            samples = [PFloat 4, PFloat 5, PFloat 6]\<rparr>)\<rparr>)
              [(''timegraph/line/1/7'', PFloat 6)] 604800"
  have h1: "queue sample_metric = []" by (rule sample_fields)
  have h2: "int (length ?items) \<le> queue_size sample_metric" by (simp add: sample_fields)
  note t = queue_keeps_every_pair [OF h1 h2, of troubled_world]
  have d: "dump_queue (sample_metric\<lparr>queue := ?items\<rparr>) troubled_world
             = Inr (sample_metric\<lparr>queue := []\<rparr>, ?w')"
    by (simp add: dump_queue_def set_polling_many_queue sample_double_write)
  have f: "faults troubled_world ''/var/lib/rrdcached/db/line/1/7.rrd'' = None"
    by (simp add: troubled_world_def sample_world_def)
  have p1: "path_join ''/var/lib/rrdcached/db/line'' [''1'', ''7.rrd'']
              = ''/var/lib/rrdcached/db/line/1/7.rrd''"
    by (simp add: path_join_def join2_def)
  from t have e: "enqueue_all sample_metric troubled_world ?items
                    = Inr (sample_metric\<lparr>queue := ?items\<rparr>, troubled_world)"
    by (rule conjunct1)
  note r = t [THEN conjunct2, rule_format, OF d]
  note q = r [THEN conjunct1]
  note s = r [THEN conjunct2, THEN conjunct1]
  note a = r [THEN conjunct2, THEN conjunct2, THEN conjunct2]
  from s have s': "shared ?w' ''timegraph/line/1/7'' = Some (PFloat 6)"
    by (simp add: sample_strings cache_key_def sample_object_strings troubled_world_def sample_world_def)
  from a [rule_format, OF f]
  have a': "samples_of ?w' ''/var/lib/rrdcached/db/line/1/7.rrd'' = [PFloat 4, PFloat 5, PFloat 6]"
    by (simp add: sample_strings sample_object_strings sample_fields archivable_def p1
          samples_of_def troubled_world_def sample_world_def)
  from h1 h2 e d q s' a' show ?thesis
    by (intro conjI exI [of _ "sample_metric\<lparr>queue := []\<rparr>"] exI [of _ ?w'])
qed

section \<open>Export: all labels or nothing\<close>

lemma export_defs_none:
  "\<forall>obj \<in> set objs. \<not> path_exists w (rrd_path m obj) \<Longrightarrow>
   export_defs w m key objs st = Inr st"
  by (induction objs arbitrary: st) (simp_all add: Let_def)

lemma export_defs_error:
  "export_defs w m key objs st = Inl e \<Longrightarrow> e = TypeError"
proof (induction objs arbitrary: st)
  case Nil
  then show ?case by simp
next
  case (Cons obj objs)
  then show ?case
    by (cases "epk obj") (auto simp add: Let_def split: if_splits)
qed

lemma export_defs_numeric:
  "\<forall>obj \<in> set objs. \<exists>i. epk obj = PkInt i \<Longrightarrow>
   \<exists>st'. export_defs w m key objs st = Inr st'"
proof (induction objs arbitrary: st)
  case Nil
  then show ?case by simp
next
  case (Cons obj objs)
  then obtain i where "epk obj = PkInt i" by auto
  with Cons show ?case by (simp add: Let_def)
qed

lemma wrap_defs_missing:
  assumes "(key, m) \<in> set exports"
    and "\<forall>obj \<in> set objs. \<not> path_exists w (rrd_path m obj)"
  shows "(wrap_defs w objs op un exports st = Inr None
          \<or> wrap_defs w objs op un exports st = Inl TypeError)
       \<and> ((\<forall>obj \<in> set objs. \<exists>i. epk obj = PkInt i)
            \<longrightarrow> wrap_defs w objs op un exports st = Inr None)"
  using assms(1)
proof (induction exports arbitrary: st)
  case Nil
  then show ?case by simp
next
  case (Cons km exports)
  obtain key' m' where km: "km = (key', m')" by (cases km)
  show ?case
  proof (cases "km = (key, m)")
    case True
    with assms(2) export_defs_none [of objs w m key "(fst st, [])"]
    show ?thesis by simp
  next
    case False
    with Cons.prems have later: "(key, m) \<in> set exports" by simp
    note IH = Cons.IH [OF later]
    show ?thesis
    proof (cases "export_defs w m' key' objs (fst st, [])")
      case (Inl e)
      with export_defs_error [OF Inl] export_defs_numeric [of objs w m' key' "(fst st, [])"]
      show ?thesis by (auto simp add: km)
    next
      case (Inr r)
      obtain args1 xvars where r: "r = (args1, xvars)" by (cases r)
      from IH [of "(args1 @ [cdef_arg key' (cdef_rpn xvars op un)] @ [''XPORT:'' @ key'],
                    snd st @ [key'])"] Inr
      show ?thesis by (simp add: km r)
    qed
  qed
qed

text \<open>
  Claim C3. When one of the requested (label, metric) pairs has no archive for any
  object of the list, \<^verbatim>\<open>_rrd_export_wrap\<close> returns \<^verbatim>\<open>None\<close> or raises (the
  \<^verbatim>\<open>TypeError\<close> of \<^verbatim>\<open>%i\<close> on a key that is not a number, met at an earlier
  label); it never returns a map. When all keys are numbers it returns \<^verbatim>\<open>None\<close>.
\<close>

theorem export_wrap_all_or_nothing:
  assumes "(key, m) \<in> set exports"
    and "\<forall>obj \<in> set object_list. \<not> path_exists w (rrd_path m obj)"
  shows "(rrd_export_wrap rt run_xport w args object_list exports op un_value json = Inr None
          \<or> rrd_export_wrap rt run_xport w args object_list exports op un_value json = Inl TypeError)
       \<and> ((\<forall>obj \<in> set object_list. \<exists>i. epk obj = PkInt i)
            \<longrightarrow> rrd_export_wrap rt run_xport w args object_list exports op un_value json = Inr None)"
  using wrap_defs_missing [OF assms, of op un_value "(args, [])"]
  by (auto simp add: rrd_export_wrap_def)


lemma sample_paths:
  "rrd_path sample_metric (line (PkInt 1)) = ''/var/lib/rrdcached/db/line/1/7.rrd''"
  "rrd_path (sample_metric\<lparr>mpk := 8\<rparr>) (line (PkInt 1)) = ''/var/lib/rrdcached/db/line/1/8.rrd''"
  by (simp_all add: rrd_path_def sample_metric_def line_def objtype_def lower_char_def strip_colons_def
        path_join_def join2_def str_int_def str_nat.simps digit_char_def)

text \<open>
  Metric 7 has an archive for object 1 and metric 8 has none: the export of both is
  \<^verbatim>\<open>None\<close>.
\<close>

theorem export_wrap_all_or_nothing_witness:
  "(''out'', sample_metric\<lparr>mpk := 8\<rparr>) \<in> set [(''in'', sample_metric), (''out'', sample_metric\<lparr>mpk := 8\<rparr>)]
   \<and> path_exists troubled_world (rrd_path sample_metric (line (PkInt 1)))
   \<and> \<not> path_exists troubled_world (rrd_path (sample_metric\<lparr>mpk := 8\<rparr>) (line (PkInt 1)))
   \<and> rrd_export_wrap sample_rt (\<lambda>args. Inr []) troubled_world [] [line (PkInt 1)]
        [(''in'', sample_metric), (''out'', sample_metric\<lparr>mpk := 8\<rparr>)] ''+'' ''0'' True
      = Inr None"
proof -
  have h1: "(''out'', sample_metric\<lparr>mpk := 8\<rparr>)
              \<in> set [(''in'', sample_metric), (''out'', sample_metric\<lparr>mpk := 8\<rparr>)]"
    by simp
  have a: "path_exists troubled_world (rrd_path sample_metric (line (PkInt 1)))"
    by (simp add: sample_paths path_exists_def troubled_world_def sample_world_def)
  have b: "\<not> path_exists troubled_world (rrd_path (sample_metric\<lparr>mpk := 8\<rparr>) (line (PkInt 1)))"
    by (simp add: sample_paths path_exists_def troubled_world_def sample_world_def)
  then have h2: "\<forall>obj \<in> set [line (PkInt 1)].
                   \<not> path_exists troubled_world (rrd_path (sample_metric\<lparr>mpk := 8\<rparr>) obj)"
    by simp
  have n: "\<forall>obj \<in> set [line (PkInt 1)]. \<exists>i. epk obj = PkInt i"
    by (simp add: line_def)
  from export_wrap_all_or_nothing [OF h1 h2, of sample_rt "\<lambda>args. Inr []" "[]" "''+''" "''0''" True,
         THEN conjunct2, THEN mp, OF n] h1 a b
  show ?thesis by simp
qed


section \<open>Export: the edges of the series\<close>

lemma xport_sample_defs:
  "export_defs troubled_world sample_metric ''traffic'' [line (PkInt 1)] ([], [])
     = Inr ([def_arg sample_metric ''traffic1'' ''/var/lib/rrdcached/db/line/1/7.rrd''], [''traffic1''])"
proof -
  have a: "path_exists troubled_world ''/var/lib/rrdcached/db/line/1/7.rrd''"
    by (simp add: path_exists_def troubled_world_def sample_world_def)
  have x: "fmt_si ''traffic'' (epk (line (PkInt 1))) = Inr ''traffic1''"
    by (simp add: line_def str_int_def str_nat.simps digit_char_def)
  show ?thesis
    by (simp add: sample_paths a x Let_def)
qed

text \<open>
  Claim C2 fails for the single-metric export. \<^verbatim>\<open>Metric.xport\<close> tests
  \<^verbatim>\<open>output['data'][-1] == 0.0\<close> on the rows of the binding, which are tuples, and so
  never replaces an edge: the series 0, 5, 5, 0 comes back as it went in. (Were the
  rows plain numbers, \<open>xport_edges_flat\<close>: the replacement reads \<^verbatim>\<open>output[key]\<close>,
  which the answer of the binding does not have.) The multi-metric export does what
  the claim says: \<open>smooth_edges_spec\<close>, \<open>smooth_edges_examples\<close> and
  \<open>export_wrap_smooths\<close> below.
\<close>

theorem xport_edges_untouched:
  "xport rows_answer troubled_world sample_metric [] [line (PkInt 1)] ''+'' ''0'' False
     = Inr (Some (Plain [''data'' \<mapsto> [Row [PFloat 0], Row [PFloat 5], Row [PFloat 5], Row [PFloat 0]]]))"
  by (simp add: xport_def sample_fields xport_sample_defs Let_def rows_answer_def xport_edge_def
        py_get_def del: export_defs.simps)

lemma xport_edges_flat:
  "xport flat_answer troubled_world sample_metric [] [line (PkInt 1)] ''+'' ''0'' False
     = Inl KeyError"
  by (simp add: xport_def sample_fields xport_sample_defs Let_def flat_answer_def xport_edge_def
        py_get_def del: export_defs.simps)

lemma smooth_edges_examples:
  "smooth_edges [PFloat 0, PFloat 5, PFloat 5, PFloat 0] = Inr [PFloat 5, PFloat 5, PFloat 5, PFloat 5]"
  "smooth_edges [PFloat 5, PFloat 0, PFloat 5, PFloat 5] = Inr [PFloat 5, PFloat 0, PFloat 5, PFloat 5]"
  by (simp_all add: smooth_edges_def py_get_def py_set_def)

lemma eq_zero_float:
  "v = PNone \<or> (\<exists>x. v = PFloat x) \<Longrightarrow> eq_zero v \<longleftrightarrow> v = PFloat 0"
  by auto

lemma smooth_edges_spec:
  assumes len: "2 \<le> length xs"
    and fl: "\<forall>v \<in> set xs. v = PNone \<or> (\<exists>x. v = PFloat x)"
  shows "\<exists>ys. smooth_edges xs = Inr ys \<and> length ys = length xs
     \<and> ys ! (length xs - 1) = (if eq_zero (last xs) then xs ! (length xs - 2) else last xs)
     \<and> ys ! 0 = (if eq_zero (hd xs) then xs ! 1 else hd xs)
     \<and> (\<forall>i. 0 < i \<and> i < length xs - 1 \<longrightarrow> ys ! i = xs ! i)"
proof -
  let ?n = "length xs"
  define xs1 where "xs1 = (if eq_zero (last xs) then xs[?n - 1 := xs ! (?n - 2)] else xs)"
  define ys where "ys = (if eq_zero (xs1 ! 0) then xs1[0 := xs1 ! 1] else xs1)"
  from len have ne: "xs \<noteq> []" by (cases xs) simp_all
  have l1: "length xs1 = ?n" by (simp add: xs1_def)
  then have ne1: "xs1 \<noteq> []" and len1: "2 \<le> length xs1" using ne len by auto
  have g1: "py_get xs (- 1) = Inr (last xs)"
    using len ne by (simp add: py_get_def last_conv_nth nat_diff_distrib' int_ops)
  have g2: "py_get xs (- 2) = Inr (xs ! (?n - 2))"
    using len ne by (simp add: py_get_def nat_diff_distrib' int_ops)
  have s1: "py_set xs (- 1) v = xs[?n - 1 := v]" for v
    using len ne by (simp add: py_set_def nat_diff_distrib' int_ops)
  have e1: "(if eq_zero (last xs)
             then (case py_get xs (- 2) of Inl e \<Rightarrow> Inl e | Inr v \<Rightarrow> Inr (py_set xs (- 1) v))
             else Inr xs) = Inr xs1"
    by (simp add: xs1_def g2 s1)
  have g3: "py_get xs1 0 = Inr (xs1 ! 0)"
    using len1 ne1 by (simp add: py_get_def)
  have g4: "py_get xs1 1 = Inr (xs1 ! 1)"
    using len1 ne1 by (simp add: py_get_def)
  have s2: "py_set xs1 0 v = xs1[0 := v]" for v
    by (simp add: py_set_def)
  have e2: "(if eq_zero (xs1 ! 0)
             then (case py_get xs1 1 of Inl e \<Rightarrow> Inl e | Inr v \<Rightarrow> Inr (py_set xs1 0 v))
             else Inr xs1) = Inr ys"
    by (simp add: ys_def g4 s2)
  have e: "smooth_edges xs = Inr ys"
    unfolding smooth_edges_def by (simp only: g1 sum.case e1 g3 e2)
  have h: "hd xs = xs ! 0" using ne by (simp add: hd_conv_nth)
  have la: "last xs = xs ! (?n - 1)" using ne by (simp add: last_conv_nth)
  have z0: "xs ! 0 \<in> set xs" and z1: "xs ! (?n - 1) \<in> set xs" using len ne by simp_all
  have first: "xs1 ! 0 = xs ! 0" using len by (simp add: xs1_def)
  have second: "xs1 ! 1 = xs ! 1" if "eq_zero (xs ! 0)"
  proof (cases "?n = 2 \<and> eq_zero (last xs)")
    case True
    from that fl z0 have "xs ! 0 = PFloat 0" by (auto simp add: eq_zero_float)
    moreover from True fl z1 have "xs ! 1 = PFloat 0" by (auto simp add: la eq_zero_float)
    ultimately show ?thesis using True by (simp add: xs1_def)
  next
    case False
    then show ?thesis using len by (auto simp add: xs1_def nth_list_update)
  qed
  have a: "length ys = ?n" by (simp add: ys_def l1)
  have b: "ys ! (?n - 1) = (if eq_zero (last xs) then xs ! (?n - 2) else last xs)"
    using len by (auto simp add: ys_def xs1_def nth_list_update la)
  have c: "ys ! 0 = (if eq_zero (hd xs) then xs ! 1 else hd xs)"
    using len1 ne1 second by (auto simp add: ys_def h first)
  have d: "\<forall>i. 0 < i \<and> i < ?n - 1 \<longrightarrow> ys ! i = xs ! i"
    by (auto simp add: ys_def xs1_def nth_list_update)
  from e a b c d show ?thesis by blast
qed

lemma export_wrap_smooths:
  "(case rrd_export_wrap sample_rt
           (\<lambda>args. Inr [(''100'', [''0.0'']), (''200'', [''5.0'']), (''300'', [''5.0'']),
                        (''400'', [''0.0''])])
           troubled_world [] [line (PkInt 1)] [(''traffic'', sample_metric)] ''+'' ''0'' False of
      Inr (Some (Plain out)) \<Rightarrow>
        out ''traffic'' = Some [PFloat 5, PFloat 5, PFloat 5, PFloat 5]
        \<and> out ''stamp'' = Some [PInt 100, PInt 200, PInt 300, PInt 400]
    | _ \<Rightarrow> False)"
proof -
  have n: "int_of_str sample_rt ''100'' = Some 100" "int_of_str sample_rt ''200'' = Some 200"
    "int_of_str sample_rt ''300'' = Some 300" "int_of_str sample_rt ''400'' = Some 400"
    "float_of_str sample_rt ''0.0'' = Some 0" "float_of_str sample_rt ''5.0'' = Some 5"
    by (simp_all add: sample_rt_def read_int_def rrd_number_def digit_val_def)
  show ?thesis
    by (simp add: rrd_export_wrap_def xport_sample_defs n out_append_def py_get_def
          smooth_edges_examples del: export_defs.simps)
qed

section \<open>Export: unknown samples\<close>

lemma rpn_run_append:
  "rpn_run env (xs @ ys) stk
     = (case rpn_run env xs stk of None \<Rightarrow> None | Some stk' \<Rightarrow> rpn_run env ys stk')"
  by (induction xs arbitrary: stk) (auto split: option.splits)

lemma step_series:
  "series_name var \<Longrightarrow> env var = Some a \<Longrightarrow> rpn_step env var stk = Some (a # stk)"
  by (simp add: rpn_step_def series_name_def)

lemma step_number:
  "rrd_number tok = Some r \<Longrightarrow> rpn_step env tok stk = Some (Some r # stk)"
  by (simp add: rpn_step_def)

lemma step_zero: "rpn_step env ''0.0'' stk = Some (Some 0 # stk)"
  by (simp add: rpn_step_def rrd_number_def digit_val_def)

lemma step_UN:
  "rpn_step env ''UN'' (a # s) = Some (Some (if a = None then 1 else 0) # s)"
  by (simp add: rpn_step_def rrd_number_def digit_val_def)

lemma step_EQ:
  "rpn_step env ''EQ'' (b # a # s) = Some (known2 (\<lambda>x y. if x = y then 1 else 0) a b # s)"
  by (simp add: rpn_step_def rrd_number_def digit_val_def)

lemma step_IF:
  "rpn_step env ''IF'' (c # b # a # s) = Some ((if a = None \<or> a = Some 0 then c else b) # s)"
  by (simp add: rpn_step_def rrd_number_def digit_val_def)

lemma binop_token:
  "rpn_binop op = Some f \<Longrightarrow>
   rrd_number op = None \<and> op \<noteq> ''UN'' \<and> op \<noteq> ''EQ'' \<and> op \<noteq> ''IF''"
  by (auto simp add: rpn_binop_def rrd_number_def digit_val_def split: if_splits)

lemma step_binop:
  "rpn_binop op = Some f \<Longrightarrow> rpn_step env op (b # a # s) = Some (f a b # s)"
  using binop_token [of op f] by (simp add: rpn_step_def)

lemma wrapped_variable:
  assumes "series_name var" and "env var = Some a" and "rrd_number un_value = Some u"
  shows "rpn_run env [var, ''UN'', ''0.0'', var, ''IF'', ''0.0'', ''EQ'', un_value, var, ''IF''] stk
           = Some (fill u a # stk)"
proof (cases a)
  case None
  with assms show ?thesis
    by (simp add: step_series step_number step_zero step_UN step_EQ step_IF known2_def fill_def)
next
  case (Some x)
  with assms show ?thesis
    by (simp add: step_series step_number step_zero step_UN step_EQ step_IF known2_def fill_def)
qed

lemma gap_filled_run:
  assumes "\<forall>var \<in> set xvars. series_name var \<and> env var \<noteq> None"
    and "rrd_number un_value = Some u"
  shows "rpn_run env (gap_filled xvars un_value) stk
           = Some (rev (map (\<lambda>var. fill u (the (env var))) xvars) @ stk)"
  using assms(1)
proof (induction xvars arbitrary: stk)
  case Nil
  then show ?case by (simp add: gap_filled_def)
next
  case (Cons var xvars)
  then obtain a where a: "env var = Some a" and s: "series_name var" by auto
  have g: "gap_filled (var # xvars) un_value
             = [var, ''UN'', ''0.0'', var, ''IF'', ''0.0'', ''EQ'', un_value, var, ''IF'']
               @ gap_filled xvars un_value"
    by (simp add: gap_filled_def)
  from Cons.prems have "\<forall>var \<in> set xvars. series_name var \<and> env var \<noteq> None" by simp
  from Cons.IH [OF this] wrapped_variable [of var env a un_value u, OF s a assms(2)]
  show ?case
    unfolding g rpn_run_append by (simp add: a del: rpn_run.simps)
qed

lemma operators_run:
  "rpn_binop op = Some f \<Longrightarrow>
   rpn_run env (replicate (length vs) op) (rev vs @ a # stk) = Some (combine f a vs # stk)"
proof (induction vs arbitrary: a stk)
  case Nil
  then show ?case by simp
next
  case (Cons v vs)
  have "replicate (length (v # vs)) op = replicate (length vs) op @ [op]"
    by (simp add: replicate_append_same)
  with Cons.IH [OF Cons.prems, of v "a # stk"] step_binop [OF Cons.prems]
  show ?case
    by (simp add: rpn_run_append)
qed


text \<open>
  Claim C1. For input series that the series store knows, a numeric
  \<^verbatim>\<open>un_value\<close> with value \<open>u\<close> and a binary operator, the wrapped variables of the
  expression leave on the stack, series by series, the sample with every unknown
  sample and every sample equal to 0 replaced by \<open>u\<close> and every other sample as it
  is; the operators then combine these substituted values, so the substitution comes
  before the combination.
\<close>

theorem gap_substitution:
  assumes "\<forall>var \<in> set xvars. series_name var \<and> env var \<noteq> None"
    and "rrd_number un_value = Some u"
    and "rpn_binop op = Some f"
  shows "rpn_run env (gap_filled xvars un_value) stk
           = Some (rev (map (\<lambda>var. fill u (the (env var))) xvars) @ stk)
     \<and> (xvars \<noteq> [] \<longrightarrow>
          rpn_eval env (cdef_rpn xvars op un_value)
            = Some (combine f (fill u (the (env (hd xvars))))
                      (map (\<lambda>var. fill u (the (env var))) (tl xvars))))
     \<and> fill u None = Some u \<and> fill u (Some 0) = Some u
     \<and> (\<forall>x. x \<noteq> 0 \<longrightarrow> fill u (Some x) = Some x)"
proof (intro conjI impI allI)
  show "rpn_run env (gap_filled xvars un_value) stk
           = Some (rev (map (\<lambda>var. fill u (the (env var))) xvars) @ stk)"
    by (rule gap_filled_run [OF assms(1,2)])
next
  assume "xvars \<noteq> []"
  then obtain x xs where x: "xvars = x # xs" by (cases xvars) auto
  let ?F = "\<lambda>var. fill u (the (env var))"
  have g: "rpn_run env (gap_filled (x # xs) un_value) [] = Some (rev (map ?F xs) @ [?F x])"
    using gap_filled_run [OF assms(1,2), of "[]"] by (simp add: x)
  have "rpn_run env (cdef_rpn xvars op un_value) []
          = rpn_run env (replicate (length (map ?F xs)) op) (rev (map ?F xs) @ ?F x # [])"
    by (simp add: cdef_rpn_def rpn_run_append g x map_replicate_const)
  also have "\<dots> = Some (combine f (?F x) (map ?F xs) # [])"
    by (rule operators_run [OF assms(3)])
  finally show "rpn_eval env (cdef_rpn xvars op un_value)
            = Some (combine f (fill u (the (env (hd xvars))))
                      (map (\<lambda>var. fill u (the (env var))) (tl xvars)))"
    by (simp add: rpn_eval_def x)
qed (simp_all add: fill_def)

lemma sample_tokens:
  "series_name ''traffic1''" "series_name ''traffic2''"
  "rrd_number ''999'' = Some 999" "rrd_number ''0'' = Some 0"
  "rpn_binop ''+'' = Some (known2 (+))"
  by (simp_all add: series_name_def rrd_number_def digit_val_def rpn_binop_def)

text \<open>
  A gap exported with \<^verbatim>\<open>un_value = "0"\<close> gives 0, with \<^verbatim>\<open>"999"\<close> gives 999; a
  recorded 0 gives 999 as well, a recorded 5 stays 5; a gap and a 3 add up to 1002.
\<close>

theorem gap_substitution_witness:
  "series_name ''traffic1'' \<and> series_name ''traffic2''
   \<and> rrd_number ''999'' = Some 999 \<and> rrd_number ''0'' = Some 0
   \<and> rpn_eval [''traffic1'' \<mapsto> None] (cdef_rpn [''traffic1''] ''+'' ''0'') = Some (Some 0)
   \<and> rpn_eval [''traffic1'' \<mapsto> None] (cdef_rpn [''traffic1''] ''+'' ''999'') = Some (Some 999)
   \<and> rpn_eval [''traffic1'' \<mapsto> Some 0] (cdef_rpn [''traffic1''] ''+'' ''999'') = Some (Some 999)
   \<and> rpn_eval [''traffic1'' \<mapsto> Some 5] (cdef_rpn [''traffic1''] ''+'' ''999'') = Some (Some 5)
   \<and> rpn_eval [''traffic1'' \<mapsto> None, ''traffic2'' \<mapsto> Some 3]
        (cdef_rpn [''traffic1'', ''traffic2''] ''+'' ''999'') = Some (Some 1002)"
proof -
  have v1: "\<forall>var \<in> set [''traffic1'']. series_name var \<and> [''traffic1'' \<mapsto> a] var \<noteq> None" for a :: sample
    by (simp add: sample_tokens)
  have v2: "\<forall>var \<in> set [''traffic1'', ''traffic2''].
              series_name var \<and> [''traffic1'' \<mapsto> None, ''traffic2'' \<mapsto> Some (3::real)] var \<noteq> None"
    by (simp add: sample_tokens)
  note t0 = gap_substitution [where env = "[''traffic1'' \<mapsto> None]" and xvars = "[''traffic1'']"
              and stk = "[]", OF v1 sample_tokens(4) sample_tokens(5)]
  note t1 = gap_substitution [where env = "[''traffic1'' \<mapsto> None]" and xvars = "[''traffic1'']"
              and stk = "[]", OF v1 sample_tokens(3) sample_tokens(5)]
  note t2 = gap_substitution [where env = "[''traffic1'' \<mapsto> Some 0]" and xvars = "[''traffic1'']"
              and stk = "[]", OF v1 sample_tokens(3) sample_tokens(5)]
  note t3 = gap_substitution [where env = "[''traffic1'' \<mapsto> Some 5]" and xvars = "[''traffic1'']"
              and stk = "[]", OF v1 sample_tokens(3) sample_tokens(5)]
  note t4 = gap_substitution [where env = "[''traffic1'' \<mapsto> None, ''traffic2'' \<mapsto> Some 3]"
              and xvars = "[''traffic1'', ''traffic2'']"
              and stk = "[]", OF v2 sample_tokens(3) sample_tokens(5)]
  from t0 have a0: "rpn_eval [''traffic1'' \<mapsto> None] (cdef_rpn [''traffic1''] ''+'' ''0'') = Some (Some 0)"
    by (simp add: fill_def)
  from t1 have a1: "rpn_eval [''traffic1'' \<mapsto> None] (cdef_rpn [''traffic1''] ''+'' ''999'') = Some (Some 999)"
    by (simp add: fill_def)
  from t2 have a2: "rpn_eval [''traffic1'' \<mapsto> Some 0] (cdef_rpn [''traffic1''] ''+'' ''999'') = Some (Some 999)"
    by (simp add: fill_def)
  from t3 have a3: "rpn_eval [''traffic1'' \<mapsto> Some 5] (cdef_rpn [''traffic1''] ''+'' ''999'') = Some (Some 5)"
    by (simp add: fill_def)
  from t4 have a4: "rpn_eval [''traffic1'' \<mapsto> None, ''traffic2'' \<mapsto> Some 3]
        (cdef_rpn [''traffic1'', ''traffic2''] ''+'' ''999'') = Some (Some 1002)"
    by (simp add: fill_def known2_def)
  from sample_tokens(1-4) a0 a1 a2 a3 a4 show ?thesis by (intro conjI)
qed

section \<open>A batch that meets both failures\<close>

text \<open>
  The whole of \<^verbatim>\<open>set_polling_many\<close> on three pairs of the sample installation:
  object 2 (refused) is logged and skipped, object 3 (no archive) gets an archive with
  one sample, object 1 is appended to, and the one \<^verbatim>\<open>set_many\<close> carries all three.
\<close>

lemma troubled_batch:
  "(case set_polling_many sample_metric troubled_world
           [(line (PkInt 2), PFloat 6), (line (PkInt 3), PFloat 7), (line (PkInt 1), PFloat 5)] of
      Inl e \<Rightarrow> False
    | Inr w' \<Rightarrow>
        samples_of w' ''/var/lib/rrdcached/db/line/1/7.rrd'' = [PFloat 4, PFloat 5]
        \<and> samples_of w' ''/var/lib/rrdcached/db/line/2/7.rrd'' = []
        \<and> samples_of w' ''/var/lib/rrdcached/db/line/3/7.rrd'' = [PFloat 7]
        \<and> logged w' = [(''traffic'', ''2'', ''illegal attempt to update using time 1300000000'')]
        \<and> set_trips w'
            = [([(''timegraph/line/2/7'', PFloat 6), (''timegraph/line/3/7'', PFloat 7),
                 (''timegraph/line/1/7'', PFloat 5)], 604800)]
        \<and> shared w' ''timegraph/line/2/7'' = Some (PFloat 6))"
proof -
  have p: "path_join ''/var/lib/rrdcached/db/line'' [''1'', ''7.rrd''] = ''/var/lib/rrdcached/db/line/1/7.rrd''"
    "path_join ''/var/lib/rrdcached/db/line'' [''2'', ''7.rrd''] = ''/var/lib/rrdcached/db/line/2/7.rrd''"
    "path_join ''/var/lib/rrdcached/db/line'' [''3'', ''7.rrd''] = ''/var/lib/rrdcached/db/line/3/7.rrd''"
    by (simp_all add: path_join_def join2_def)
  have d: "dirname ''/var/lib/rrdcached/db/line/3/7.rrd'' = ''/var/lib/rrdcached/db/line/3''"
    by (simp add: dirname_def)
  have n: "\<not> sublist ''No such file'' ''illegal attempt to update using time 1300000000''"
    by code_simp
  show ?thesis
    by (simp add: set_polling_many_def Let_def sample_strings sample_fields set_polling_one_def
          sample_object_strings archivable_def p d n missing_message rrd_update_def rrd_create_def
          makedirs_def path_exists_def troubled_world_def sample_world_def cache_set_many_def
          samples_of_def)
qed

end
